theory Spec2Isabelle
  imports Complex_Main
begin

section \<open>Data model\<close>

text \<open>
  The portal list manager keeps one global array \<^verbatim>\<open>portals\<close> of portal objects.
  A coordinate is a JavaScript number or \<^verbatim>\<open>null\<close> (\<open>None\<close>). World tags are the
  strings the program compares with \<^verbatim>\<open>===\<close>. Name and destination are strings, as
  the input fields and the sanitization give them.
\<close>

definition STORAGE_KEY :: string where
  "STORAGE_KEY = ''portalListData_v1''"

definition WORLD_OVERWORLD :: string where
  "WORLD_OVERWORLD = ''Overworld''"

definition WORLD_NETHER :: string where
  "WORLD_NETHER = ''Nether''"

text \<open>
  A JavaScript number: a double, infinite, or not a number. \<open>Finite r\<close> stands for the
  double of value \<open>r\<close>; the arithmetic below produces such values by rounding. The
  zero of negative sign is not told apart from zero: the program never divides by a
  coordinate, and printing, comparing and storing do not show the sign of a zero.
\<close>

datatype jsnum = Finite real | PosInf | NegInf | NaN

definition Infinity :: jsnum where
  "Infinity = PosInf"

section \<open>Double-precision arithmetic\<close>

text \<open>
  Rounding to the nearest double, ties to even. The binade of \<open>r\<close> is the exponent of
  the power of two at or below its magnitude; the spacing of the doubles around \<open>r\<close> is
  two to the binade minus 52, and two to the -1074 below the normal range. A real is
  rounded to the nearest multiple of that spacing, with a tie going to the even
  multiple, and a result of magnitude two to the 1024 or more is infinite.
\<close>

definition binade :: "real \<Rightarrow> int" where
  "binade r = \<lfloor>log 2 \<bar>r\<bar>\<rfloor>"

definition round_half_even :: "real \<Rightarrow> int" where
  "round_half_even q =
     (let f = \<lfloor>q\<rfloor>; d = q - of_int f
      in if d < 1 / 2 then f
         else if 1 / 2 < d then f + 1
         else if even f then f else f + 1)"

definition round64 :: "real \<Rightarrow> jsnum" where
  "round64 r =
     (if r = 0 then Finite 0
      else
        let e = max (binade r) (- 1022) - 52;
            v = of_int (round_half_even (r / 2 powi e)) * 2 powi e
        in if 2 ^ 1024 \<le> \<bar>v\<bar> then (if 0 < r then PosInf else NegInf) else Finite v)"

text \<open>\<^verbatim>\<open>a + b\<close>, \<^verbatim>\<open>a - b\<close> and \<^verbatim>\<open>a * b\<close>: the exact result, rounded.\<close>

fun fadd :: "jsnum \<Rightarrow> jsnum \<Rightarrow> jsnum" where
  "fadd (Finite x) (Finite y) = round64 (x + y)"
| "fadd NaN b = NaN"
| "fadd a NaN = NaN"
| "fadd PosInf NegInf = NaN"
| "fadd NegInf PosInf = NaN"
| "fadd PosInf b = PosInf"
| "fadd a PosInf = PosInf"
| "fadd NegInf b = NegInf"
| "fadd a NegInf = NegInf"

fun fsub :: "jsnum \<Rightarrow> jsnum \<Rightarrow> jsnum" where
  "fsub (Finite x) (Finite y) = round64 (x - y)"
| "fsub NaN b = NaN"
| "fsub a NaN = NaN"
| "fsub PosInf PosInf = NaN"
| "fsub NegInf NegInf = NaN"
| "fsub PosInf b = PosInf"
| "fsub a NegInf = PosInf"
| "fsub NegInf b = NegInf"
| "fsub a PosInf = NegInf"

fun fmul :: "jsnum \<Rightarrow> jsnum \<Rightarrow> jsnum" where
  "fmul (Finite x) (Finite y) = round64 (x * y)"
| "fmul NaN b = NaN"
| "fmul a NaN = NaN"
| "fmul (Finite x) b =
     (if x = 0 then NaN else if (0 < x) = (b = PosInf) then PosInf else NegInf)"
| "fmul a (Finite y) =
     (if y = 0 then NaN else if (0 < y) = (a = PosInf) then PosInf else NegInf)"
| "fmul PosInf PosInf = PosInf"
| "fmul NegInf NegInf = PosInf"
| "fmul PosInf NegInf = NegInf"
| "fmul NegInf PosInf = NegInf"

text \<open>\<^verbatim>\<open>a / 8\<close>\<close>

fun div8 :: "jsnum \<Rightarrow> jsnum" where
  "div8 (Finite x) = round64 (x / 8)"
| "div8 a = a"

text \<open>\<^verbatim>\<open>Math.floor\<close>, \<^verbatim>\<open>Math.abs\<close> and \<^verbatim>\<open>Math.sqrt\<close>; the first two are exact.\<close>

fun ffloor :: "jsnum \<Rightarrow> jsnum" where
  "ffloor (Finite x) = Finite (of_int \<lfloor>x\<rfloor>)"
| "ffloor a = a"

fun fabs :: "jsnum \<Rightarrow> jsnum" where
  "fabs (Finite x) = Finite \<bar>x\<bar>"
| "fabs PosInf = PosInf"
| "fabs NegInf = PosInf"
| "fabs NaN = NaN"

fun fsqrt :: "jsnum \<Rightarrow> jsnum" where
  "fsqrt (Finite x) = (if x < 0 then NaN else round64 (sqrt x))"
| "fsqrt PosInf = PosInf"
| "fsqrt NegInf = NaN"
| "fsqrt NaN = NaN"

text \<open>\<^verbatim>\<open>a < b\<close>; \<^verbatim>\<open>a > b\<close> is \<open>num_less b a\<close>. A comparison with NaN is false.\<close>

fun num_less :: "jsnum \<Rightarrow> jsnum \<Rightarrow> bool" where
  "num_less (Finite x) (Finite y) = (x < y)"
| "num_less NaN b = False"
| "num_less a NaN = False"
| "num_less a NegInf = False"
| "num_less PosInf b = False"
| "num_less a PosInf = True"
| "num_less NegInf b = True"

text \<open>\<^verbatim>\<open>Number.isFinite\<close> of a number.\<close>

fun is_finite :: "jsnum \<Rightarrow> bool" where
  "is_finite (Finite x) = True"
| "is_finite a = False"

section \<open>Portals\<close>

type_synonym coord = "jsnum option"

record travel_loc =
  tx :: coord
  ty :: coord
  tz :: coord
  tworld :: "string option"

record closest_info =
  cname :: "string option"
  cdistance :: "jsnum option"

text \<open>
  The distance of a target is \<^verbatim>\<open>null\<close>, a number, or the string
  \<^verbatim>\<open>"Cannot Reach"\<close>.
\<close>

datatype tdistance = DNull | DNum jsnum | DStr string

definition CannotReach :: tdistance where
  "CannotReach = DStr ''Cannot Reach''"

record target_info =
  gname :: "string option"
  gdistance :: tdistance

record portal =
  name :: string
  destination :: string
  px :: coord
  py :: coord
  pz :: coord
  world :: string
  travel :: travel_loc
  closest :: closest_info
  target :: target_info

definition travel_unset :: travel_loc where
  "travel_unset = \<lparr>tx = None, ty = None, tz = None, tworld = None\<rparr>"

definition closest_unset :: closest_info where
  "closest_unset = \<lparr>cname = None, cdistance = None\<rparr>"

definition target_unset :: target_info where
  "target_unset = \<lparr>gname = None, gdistance = DNull\<rparr>"

definition createBlankPortal :: portal where
  "createBlankPortal =
     \<lparr>name = '''', destination = '''', px = None, py = None, pz = None,
      world = WORLD_OVERWORLD,
      travel = travel_unset, closest = closest_unset, target = target_unset\<rparr>"

text \<open>
  An element of the \<^verbatim>\<open>portals\<close> array: a portal object, or \<^verbatim>\<open>null\<close>
  (which an imported JSON array can contain). Reading a property of \<^verbatim>\<open>null\<close>
  raises a \<^verbatim>\<open>TypeError\<close>.
\<close>

datatype error = TypeError

type_synonym entry = "portal option"

section \<open>Math helpers\<close>

definition convertCoords :: "coord \<Rightarrow> coord \<Rightarrow> string \<Rightarrow> string \<Rightarrow> coord \<times> coord" where
  "convertCoords x z fromWorld toWorld =
     (case (x, z) of
        (Some xv, Some zv) \<Rightarrow>
          if fromWorld = WORLD_OVERWORLD \<and> toWorld = WORLD_NETHER
          then (Some (ffloor (div8 xv)), Some (ffloor (div8 zv)))
          else if fromWorld = WORLD_NETHER \<and> toWorld = WORLD_OVERWORLD
          then (Some (fmul xv (Finite 8)), Some (fmul zv (Finite 8)))
          else (Some xv, Some zv)
      | _ \<Rightarrow> (None, None))"

definition distance3D :: "coord \<Rightarrow> coord \<Rightarrow> coord \<Rightarrow> coord \<Rightarrow> coord \<Rightarrow> coord \<Rightarrow> jsnum option" where
  "distance3D x1 y1 z1 x2 y2 z2 =
     (if list_ex (\<lambda>v. v = None) [x1, y1, z1, x2, y2, z2] then None
      else
        let dx = fsub (the x2) (the x1);
            dy = fsub (the y2) (the y1);
            dz = fsub (the z2) (the z1)
        in Some (fsqrt (fadd (fadd (fmul dx dx) (fmul dy dy)) (fmul dz dz))))"

section \<open>Calculations per portal\<close>

definition computePortalTravelLocation :: "entry \<Rightarrow> error + portal" where
  "computePortalTravelLocation portal =
     (case portal of
        None \<Rightarrow> Inl TypeError
      | Some p \<Rightarrow>
          if px p = None \<or> py p = None \<or> pz p = None
          then Inr (p\<lparr>travel := travel_unset\<rparr>)
          else
            let targetWorld =
                  (if world p = WORLD_OVERWORLD then WORLD_NETHER else WORLD_OVERWORLD);
                converted = convertCoords (px p) (pz p) (world p) targetWorld
            in Inr (p\<lparr>travel :=
                 \<lparr>tx = fst converted, ty = py p, tz = snd converted,
                  tworld = Some targetWorld\<rparr>\<rparr>))"

text \<open>
  The body of the \<^verbatim>\<open>forEach\<close> callback of \<open>computeClosestPortal\<close>, for the
  element \<open>other\<close> at position \<open>i\<close>; \<open>trx\<close> and \<open>trz\<close> are the values of
  \<^verbatim>\<open>travel.x\<close> and \<^verbatim>\<open>travel.z\<close>, which the caller has found set. The pair is
  \<^verbatim>\<open>(best, bestDist)\<close>.
\<close>

definition closestVisit ::
  "travel_loc \<Rightarrow> jsnum \<Rightarrow> jsnum \<Rightarrow> string option \<Rightarrow> jsnum \<Rightarrow> nat \<Rightarrow> nat \<Rightarrow> entry
     \<Rightarrow> portal option \<times> jsnum \<Rightarrow> error + portal option \<times> jsnum" where
  "closestVisit tr trx trz targetWorld maxRange index i other acc =
     (if i = index then Inr acc
      else case other of
        None \<Rightarrow> Inl TypeError
      | Some ot \<Rightarrow>
          if Some (world ot) \<noteq> targetWorld then Inr acc
          else (case (px ot, pz ot) of
            (Some ox, Some oz) \<Rightarrow>
              let dx = fabs (fsub ox trx);
                  dz = fabs (fsub oz trz)
              in if num_less maxRange dx \<or> num_less maxRange dz then Inr acc
                 else (case distance3D (tx tr) (ty tr) (tz tr) (px ot) (py ot) (pz ot) of
                   None \<Rightarrow> Inr acc
                 | Some d3 \<Rightarrow>
                     if num_less d3 (snd acc) then Inr (Some ot, d3) else Inr acc)
          | _ \<Rightarrow> Inr acc))"

fun closestLoop ::
  "travel_loc \<Rightarrow> jsnum \<Rightarrow> jsnum \<Rightarrow> string option \<Rightarrow> jsnum \<Rightarrow> nat \<Rightarrow> nat \<Rightarrow> entry list
     \<Rightarrow> portal option \<times> jsnum \<Rightarrow> error + portal option \<times> jsnum" where
  "closestLoop tr trx trz targetWorld maxRange index i [] acc = Inr acc"
| "closestLoop tr trx trz targetWorld maxRange index i (other # rest) acc =
     (case closestVisit tr trx trz targetWorld maxRange index i other acc of
        Inl e \<Rightarrow> Inl e
      | Inr acc' \<Rightarrow> closestLoop tr trx trz targetWorld maxRange index (Suc i) rest acc')"

text \<open>
  The travel field of a portal is always an object here, so the test \<^verbatim>\<open>!travel\<close> of
  \<open>computeClosestPortal\<close> and \<open>computeTargetPortal\<close> is never true and only the
  tests of \<^verbatim>\<open>travel.x\<close> and \<^verbatim>\<open>travel.z\<close> remain. The function returns the portal
  with its closest field assigned.
\<close>

definition computeClosestPortal :: "entry list \<Rightarrow> entry \<Rightarrow> nat \<Rightarrow> error + portal" where
  "computeClosestPortal portals portal index =
     (case portal of
        None \<Rightarrow> Inl TypeError
      | Some p \<Rightarrow>
          let tr = travel p in
          (case (tx tr, tz tr) of
             (Some trx, Some trz) \<Rightarrow>
               let targetWorld = tworld tr;
                   maxRange = (if targetWorld = Some WORLD_NETHER then Finite 16 else Finite 128)
               in (case closestLoop tr trx trz targetWorld maxRange index 0 portals
                          (None, Infinity) of
                     Inl e \<Rightarrow> Inl e
                   | Inr (best, bestDist) \<Rightarrow>
                       Inr (p\<lparr>closest :=
                         (case best of
                            Some b \<Rightarrow>
                              \<lparr>cname = Some (if name b = '''' then ''(unnamed)'' else name b),
                               cdistance = Some bestDist\<rparr>
                          | None \<Rightarrow> closest_unset)\<rparr>))
           | _ \<Rightarrow> Inr (p\<lparr>closest := closest_unset\<rparr>)))"

text \<open>
  \<^verbatim>\<open>portals.find((p) => p.name === dest)\<close>: the first element with that name,
  \<open>None\<close> for \<^verbatim>\<open>undefined\<close>; the callback raises on a \<^verbatim>\<open>null\<close> element it
  reaches.
\<close>

fun findByName :: "entry list \<Rightarrow> string \<Rightarrow> error + portal option" where
  "findByName [] dest = Inr None"
| "findByName (None # rest) dest = Inl TypeError"
| "findByName (Some q # rest) dest =
     (if name q = dest then Inr (Some q) else findByName rest dest)"

definition computeTargetPortal :: "entry list \<Rightarrow> entry \<Rightarrow> error + portal" where
  "computeTargetPortal portals portal =
     (case portal of
        None \<Rightarrow> Inl TypeError
      | Some p \<Rightarrow>
          if destination p = '''' then Inr (p\<lparr>target := target_unset\<rparr>)
          else (case findByName portals (destination p) of
            Inl e \<Rightarrow> Inl e
          | Inr None \<Rightarrow> Inr (p\<lparr>target := target_unset\<rparr>)
          | Inr (Some t) \<Rightarrow>
              (case (px t, pz t) of
                 (Some gx, Some gz) \<Rightarrow>
                   let tr = travel p in
                   (case (tx tr, tz tr) of
                      (Some trx, Some trz) \<Rightarrow>
                        if tworld tr \<noteq> Some (world t)
                        then Inr (p\<lparr>target := \<lparr>gname = Some (name t), gdistance = CannotReach\<rparr>\<rparr>)
                        else
                          let dx = fabs (fsub gx trx);
                              dz = fabs (fsub gz trz);
                              maxRange =
                                (if tworld tr = Some WORLD_NETHER then Finite 16 else Finite 128)
                          in if num_less maxRange dx \<or> num_less maxRange dz
                             then Inr (p\<lparr>target :=
                                    \<lparr>gname = Some (name t), gdistance = CannotReach\<rparr>\<rparr>)
                             else
                               let d3 = distance3D (tx tr) (ty tr) (tz tr) (px t) (py t) (pz t)
                               in Inr (p\<lparr>target :=
                                    \<lparr>gname = Some (name t),
                                     gdistance = (case d3 of None \<Rightarrow> DNull | Some d \<Rightarrow> DNum d)\<rparr>\<rparr>)
                    | _ \<Rightarrow> Inr (p\<lparr>target := \<lparr>gname = Some (name t), gdistance = CannotReach\<rparr>\<rparr>))
               | _ \<Rightarrow> Inr (p\<lparr>target := target_unset\<rparr>))))"

section \<open>The page\<close>

text \<open>
  What the display functions read besides the portal list: the number of portal cards
  in the list container, the numbers \<^verbatim>\<open>Number(input.value)\<close> of the three top
  coordinate inputs, the text of the top destination input, and the variable
  \<^verbatim>\<open>topWorld\<close>. The container, the output elements and the inputs are taken to be
  present, and every card to have the three spans \<open>createPortalCard\<close> gives it.
\<close>

record page =
  cards :: nat
  topX :: jsnum
  topY :: jsnum
  topZ :: jsnum
  topDestination :: string
  topWorld :: string

text \<open>
  The callback of \<open>updatePortalCardDisplays\<close> for the card at \<open>index\<close>. Only the
  calls of \<^verbatim>\<open>toFixed\<close> can raise: on the closest distance of a closest field with a
  name, and on the target distance of a target with a name when that distance is not
  the sentinel. \<^verbatim>\<open>toFixed\<close> exists on numbers only.
\<close>

definition displayCard :: "entry list \<Rightarrow> nat \<Rightarrow> error + unit" where
  "displayCard portals index =
     (if length portals \<le> index then Inr ()
      else case portals ! index of
        None \<Rightarrow> Inr ()
      | Some p \<Rightarrow>
          (case (case cname (closest p) of
                   None \<Rightarrow> Inr ()
                 | Some n \<Rightarrow>
                     (case cdistance (closest p) of
                        None \<Rightarrow> Inl TypeError
                      | Some d \<Rightarrow> Inr ())) of
             Inl e \<Rightarrow> Inl e
           | Inr u \<Rightarrow>
               (case gname (target p) of
                  None \<Rightarrow> Inr ()
                | Some n \<Rightarrow>
                    if gdistance (target p) = CannotReach then Inr ()
                    else (case gdistance (target p) of
                            DNum d \<Rightarrow> Inr ()
                          | _ \<Rightarrow> Inl TypeError))))"

fun displayCards :: "entry list \<Rightarrow> nat \<Rightarrow> nat \<Rightarrow> error + unit" where
  "displayCards portals index 0 = Inr ()"
| "displayCards portals index (Suc n) =
     (case displayCard portals index of
        Inl e \<Rightarrow> Inl e
      | Inr u \<Rightarrow> displayCards portals (Suc index) n)"

definition updatePortalCardDisplays :: "page \<Rightarrow> entry list \<Rightarrow> error + unit" where
  "updatePortalCardDisplays pg portals = displayCards portals 0 (cards pg)"

text \<open>
  The callback of the closest-portal loop of \<open>updateOutputCard\<close>; it has no index to
  skip.
\<close>

definition outputVisit ::
  "jsnum \<Rightarrow> jsnum \<Rightarrow> jsnum \<Rightarrow> string \<Rightarrow> jsnum \<Rightarrow> entry
     \<Rightarrow> portal option \<times> jsnum \<Rightarrow> error + portal option \<times> jsnum" where
  "outputVisit cx y cz targetWorld maxRange other acc =
     (case other of
        None \<Rightarrow> Inl TypeError
      | Some p \<Rightarrow>
          if world p \<noteq> targetWorld then Inr acc
          else (case (px p, pz p) of
            (Some ox, Some oz) \<Rightarrow>
              let dx = fabs (fsub ox cx);
                  dz = fabs (fsub oz cz)
              in if num_less maxRange dx \<or> num_less maxRange dz then Inr acc
                 else (case distance3D (Some cx) (Some y) (Some cz) (px p) (py p) (pz p) of
                   None \<Rightarrow> Inr acc
                 | Some d3 \<Rightarrow>
                     if num_less d3 (snd acc) then Inr (Some p, d3) else Inr acc)
          | _ \<Rightarrow> Inr acc))"

fun outputLoop ::
  "jsnum \<Rightarrow> jsnum \<Rightarrow> jsnum \<Rightarrow> string \<Rightarrow> jsnum \<Rightarrow> entry list
     \<Rightarrow> portal option \<times> jsnum \<Rightarrow> error + portal option \<times> jsnum" where
  "outputLoop cx y cz targetWorld maxRange [] acc = Inr acc"
| "outputLoop cx y cz targetWorld maxRange (other # rest) acc =
     (case outputVisit cx y cz targetWorld maxRange other acc of
        Inl e \<Rightarrow> Inl e
      | Inr acc' \<Rightarrow> outputLoop cx y cz targetWorld maxRange rest acc')"

text \<open>
  \<open>updateOutputCard\<close> writes texts of the page only; what is kept of it is whether it
  raises: on a \<^verbatim>\<open>null\<close> element in one of its two searches, or on \<^verbatim>\<open>dT.toFixed\<close>
  when \<open>distance3D\<close> returned unset.
\<close>

definition updateOutputCard :: "page \<Rightarrow> entry list \<Rightarrow> error + unit" where
  "updateOutputCard pg portals =
     (let x = topX pg; y = topY pg; z = topZ pg
      in if \<not> is_finite x \<or> \<not> is_finite y \<or> \<not> is_finite z then Inr ()
         else
           let targetWorld =
                 (if topWorld pg = WORLD_OVERWORLD then WORLD_NETHER else WORLD_OVERWORLD)
           in (case convertCoords (Some x) (Some z) (topWorld pg) targetWorld of
                 (Some cx, Some cz) \<Rightarrow>
                   let maxRangeClosest =
                         (if targetWorld = WORLD_NETHER then Finite 16 else Finite 128)
                   in (case outputLoop cx y cz targetWorld maxRangeClosest portals
                              (None, Infinity) of
                         Inl e \<Rightarrow> Inl e
                       | Inr found \<Rightarrow>
                           (case findByName portals (topDestination pg) of
                              Inl e \<Rightarrow> Inl e
                            | Inr None \<Rightarrow> Inr ()
                            | Inr (Some t) \<Rightarrow>
                                (case (px t, pz t) of
                                   (Some gx, Some gz) \<Rightarrow>
                                     if world t \<noteq> targetWorld then Inr ()
                                     else
                                       let dxT = fabs (fsub gx cx);
                                           dzT = fabs (fsub gz cz);
                                           maxRangeTarget =
                                             (if targetWorld = WORLD_NETHER
                                              then Finite 16 else Finite 128)
                                       in if num_less maxRangeTarget dxT
                                             \<or> num_less maxRangeTarget dzT
                                          then Inr ()
                                          else (case distance3D (Some cx) (Some y) (Some cz)
                                                       (px t) (py t) (pz t) of
                                                  None \<Rightarrow> Inl TypeError
                                                | Some dT \<Rightarrow> Inr ())
                                 | _ \<Rightarrow> Inr ())))
               | _ \<Rightarrow> Inr ()))"

section \<open>Global calculation dispatcher\<close>

text \<open>
  \<^verbatim>\<open>portals.forEach((portal, index) => f(portal, index))\<close> where \<open>f\<close> assigns one
  field of the object \<open>portal\<close> in place: the element at \<open>index\<close> is replaced by the
  updated object. When \<open>f\<close> raises, the loop stops there and the array keeps what the
  earlier calls wrote; the error is returned beside it.
\<close>

function forEachFrom ::
  "(entry list \<Rightarrow> entry \<Rightarrow> nat \<Rightarrow> error + portal) \<Rightarrow> nat \<Rightarrow> entry list
     \<Rightarrow> entry list \<times> error option" where
  "forEachFrom f i ps =
     (if i < length ps
      then (case f ps (ps ! i) i of
              Inl e \<Rightarrow> (ps, Some e)
            | Inr p' \<Rightarrow> forEachFrom f (Suc i) (ps[i := Some p']))
      else (ps, None))"
  by pat_completeness auto
termination
  by (relation "measure (\<lambda>(f, i, ps). length ps - i)") auto

declare forEachFrom.simps [simp del]

definition forEach ::
  "(entry list \<Rightarrow> entry \<Rightarrow> nat \<Rightarrow> error + portal) \<Rightarrow> entry list \<Rightarrow> entry list \<times> error option" where
  "forEach f ps = forEachFrom f 0 ps"

text \<open>
  The \<^verbatim>\<open>try\<close> block: the three passes, then \<open>savePortalsToStorage\<close>, which
  catches its own errors and assigns nothing in the list, then the two display
  functions. The result is the list as the block leaves it and the error the
  \<^verbatim>\<open>catch\<close> clause logs, \<open>None\<close> when the block ran to its end.
\<close>

definition updateAllPortalCalculations :: "page \<Rightarrow> entry list \<Rightarrow> entry list \<times> error option" where
  "updateAllPortalCalculations pg portals =
     (case forEach (\<lambda>ps portal index. computePortalTravelLocation portal) portals of
        (ps1, Some e) \<Rightarrow> (ps1, Some e)
      | (ps1, None) \<Rightarrow>
          (case forEach (\<lambda>ps portal index. computeClosestPortal ps portal index) ps1 of
             (ps2, Some e) \<Rightarrow> (ps2, Some e)
           | (ps2, None) \<Rightarrow>
               (case forEach (\<lambda>ps portal index. computeTargetPortal ps portal) ps2 of
                  (ps3, Some e) \<Rightarrow> (ps3, Some e)
                | (ps3, None) \<Rightarrow>
                    (case updatePortalCardDisplays pg ps3 of
                       Inl e \<Rightarrow> (ps3, Some e)
                     | Inr u \<Rightarrow>
                         (case updateOutputCard pg ps3 of
                            Inl e \<Rightarrow> (ps3, Some e)
                          | Inr u' \<Rightarrow> (ps3, None))))))"

section \<open>Sanitization and storage\<close>

text \<open>
  A value produced by \<^verbatim>\<open>JSON.parse\<close>. An object is the list of its own
  properties.
\<close>

datatype jsval =
    JUndefined
  | JNull
  | JBool bool
  | JNum jsnum
  | JStr string
  | JArr "jsval list"
  | JObj "(string \<times> jsval) list"

text \<open>
  \<^verbatim>\<open>raw.k\<close> for one of the property names the program reads: a
  \<^verbatim>\<open>TypeError\<close> on \<^verbatim>\<open>null\<close> and \<^verbatim>\<open>undefined\<close>, the property of an
  object, \<^verbatim>\<open>undefined\<close> where there is none (booleans, numbers, strings and
  arrays have none of these properties).
\<close>

definition getProp :: "jsval \<Rightarrow> string \<Rightarrow> error + jsval" where
  "getProp raw k =
     (case raw of
        JUndefined \<Rightarrow> Inl TypeError
      | JNull \<Rightarrow> Inl TypeError
      | JObj kvs \<Rightarrow> Inr (case map_of kvs k of Some v \<Rightarrow> v | None \<Rightarrow> JUndefined)
      | _ \<Rightarrow> Inr JUndefined)"

text \<open>Truthiness, as \<^verbatim>\<open>||\<close> tests it.\<close>

fun truthy :: "jsval \<Rightarrow> bool" where
  "truthy JUndefined = False"
| "truthy JNull = False"
| "truthy (JBool b) = b"
| "truthy (JNum (Finite r)) = (r \<noteq> 0)"
| "truthy (JNum NaN) = False"
| "truthy (JNum PosInf) = True"
| "truthy (JNum NegInf) = True"
| "truthy (JStr s) = (s \<noteq> '''')"
| "truthy (JArr vs) = True"
| "truthy (JObj kvs) = True"

text \<open>\<^verbatim>\<open>typeof v === "string" ? v : ""\<close>\<close>

definition stringOrEmpty :: "jsval \<Rightarrow> string" where
  "stringOrEmpty v = (case v of JStr s \<Rightarrow> s | _ \<Rightarrow> '''')"

text \<open>\<^verbatim>\<open>Number.isFinite(v) ? v : null\<close>\<close>

definition finiteOrNull :: "jsval \<Rightarrow> coord" where
  "finiteOrNull v = (case v of JNum (Finite r) \<Rightarrow> Some (Finite r) | _ \<Rightarrow> None)"

definition bindE :: "error + 'a \<Rightarrow> ('a \<Rightarrow> error + 'b) \<Rightarrow> error + 'b" where
  "bindE m f = (case m of Inl e \<Rightarrow> Inl e | Inr v \<Rightarrow> f v)"

text \<open>
  The object literal inside the \<^verbatim>\<open>try\<close> block of \<open>sanitizePortal\<close>. The
  three derived fields are copied from the raw record when truthy, unsanitized; every
  sweep overwrites them before reading them. The portal record holds them in the shape
  the sweep writes, so the reading of a stored raw value in that shape is a parameter
  (\<open>tview\<close>, \<open>cview\<close>, \<open>gview\<close>), and nothing below depends on it.
\<close>

definition sanitizeFields ::
  "(jsval \<Rightarrow> travel_loc) \<Rightarrow> (jsval \<Rightarrow> closest_info) \<Rightarrow> (jsval \<Rightarrow> target_info) \<Rightarrow> jsval
     \<Rightarrow> error + portal" where
  "sanitizeFields tview cview gview raw =
     bindE (getProp raw ''name'') (\<lambda>rname.
     bindE (getProp raw ''destination'') (\<lambda>rdestination.
     bindE (getProp raw ''x'') (\<lambda>rx.
     bindE (getProp raw ''y'') (\<lambda>ry.
     bindE (getProp raw ''z'') (\<lambda>rz.
     bindE (getProp raw ''world'') (\<lambda>rworld.
     bindE (getProp raw ''travel'') (\<lambda>rtravel.
     bindE (getProp raw ''closest'') (\<lambda>rclosest.
     bindE (getProp raw ''target'') (\<lambda>rtarget.
       Inr \<lparr>name = stringOrEmpty rname,
            destination = stringOrEmpty rdestination,
            px = finiteOrNull rx,
            py = finiteOrNull ry,
            pz = finiteOrNull rz,
            world = (if rworld = JStr WORLD_NETHER then WORLD_NETHER else WORLD_OVERWORLD),
            travel = (if truthy rtravel then tview rtravel else travel_unset),
            closest = (if truthy rclosest then cview rclosest else closest_unset),
            target = (if truthy rtarget then gview rtarget else target_unset)\<rparr>)))))))))"

definition sanitizePortal ::
  "(jsval \<Rightarrow> travel_loc) \<Rightarrow> (jsval \<Rightarrow> closest_info) \<Rightarrow> (jsval \<Rightarrow> target_info) \<Rightarrow> jsval
     \<Rightarrow> portal" where
  "sanitizePortal tview cview gview raw =
     (case sanitizeFields tview cview gview raw of
        Inl err \<Rightarrow> createBlankPortal
      | Inr p \<Rightarrow> p)"

text \<open>
  \<open>storage\<close> is the content of \<^verbatim>\<open>localStorage\<close>; \<open>parse\<close> is
  \<^verbatim>\<open>JSON.parse\<close>, \<open>None\<close> where it raises. The result \<open>None\<close> is
  \<^verbatim>\<open>null\<close>.
\<close>

definition loadPortalsFromStorage ::
  "(jsval \<Rightarrow> travel_loc) \<Rightarrow> (jsval \<Rightarrow> closest_info) \<Rightarrow> (jsval \<Rightarrow> target_info)
     \<Rightarrow> (string \<Rightarrow> jsval option) \<Rightarrow> (string \<Rightarrow> string option) \<Rightarrow> entry list option" where
  "loadPortalsFromStorage tview cview gview parse storage =
     (case storage STORAGE_KEY of
        None \<Rightarrow> None
      | Some raw \<Rightarrow>
          if raw = '''' then None
          else (case parse raw of
                  None \<Rightarrow> None
                | Some (JArr parsed) \<Rightarrow>
                    Some (map (\<lambda>v. Some (sanitizePortal tview cview gview v)) parsed)
                | Some _ \<Rightarrow> None))"

definition initializePortals ::
  "(jsval \<Rightarrow> travel_loc) \<Rightarrow> (jsval \<Rightarrow> closest_info) \<Rightarrow> (jsval \<Rightarrow> target_info)
     \<Rightarrow> (string \<Rightarrow> jsval option) \<Rightarrow> (string \<Rightarrow> string option) \<Rightarrow> entry list" where
  "initializePortals tview cview gview parse storage =
     (case loadPortalsFromStorage tview cview gview parse storage of
        Some stored \<Rightarrow> if length stored > 0 then stored else [Some createBlankPortal]
      | None \<Rightarrow> [Some createBlankPortal])"

section \<open>Rendering, delete, reset, import\<close>

text \<open>
  Of \<open>createPortalCard\<close> only its reads of the portal matter here: building the name
  input reads \<^verbatim>\<open>portal.name\<close>, which raises on a \<^verbatim>\<open>null\<close> element.
\<close>

definition createPortalCard :: "entry \<Rightarrow> nat \<Rightarrow> error + unit" where
  "createPortalCard portal index = (case portal of None \<Rightarrow> Inl TypeError | Some p \<Rightarrow> Inr ())"

fun renderCards :: "nat \<Rightarrow> entry list \<Rightarrow> error + unit" where
  "renderCards index [] = Inr ()"
| "renderCards index (portal # rest) =
     (case createPortalCard portal index of
        Inl e \<Rightarrow> Inl e
      | Inr u \<Rightarrow> renderCards (Suc index) rest)"

text \<open>
  \<open>renderPortalList\<close>: the container is emptied and a card is built for every
  portal, so the page has as many cards as the list has portals when the sweep runs.
  The result is the list after the sweep, or the error that escaped.
\<close>

definition renderPortalList :: "page \<Rightarrow> entry list \<Rightarrow> error + entry list" where
  "renderPortalList pg portals =
     (case renderCards 0 portals of
        Inl e \<Rightarrow> Inl e
      | Inr u \<Rightarrow>
          Inr (fst (updateAllPortalCalculations (pg\<lparr>cards := length portals\<rparr>) portals)))"

text \<open>
  \<^verbatim>\<open>portals.splice(index, 1)\<close> for a card's index, the refill of an emptied array,
  and the rendering; the \<^verbatim>\<open>catch\<close> clause logs an escaped error and the array stays
  as it is then.
\<close>

definition deletePortal :: "page \<Rightarrow> nat \<Rightarrow> entry list \<Rightarrow> entry list" where
  "deletePortal pg index portals =
     (let spliced = take index portals @ drop (Suc index) portals;
          refilled = (if length spliced = 0 then spliced @ [Some createBlankPortal] else spliced)
      in case renderPortalList pg refilled of
           Inl e \<Rightarrow> refilled
         | Inr rendered \<Rightarrow> rendered)"

text \<open>
  \<open>confirmed\<close> is the answer to the confirmation dialog. The call of
  \<open>updateOutputCard\<close> that follows the rendering, here and in the import, assigns
  nothing in the list.
\<close>

definition resetPortals :: "page \<Rightarrow> bool \<Rightarrow> entry list \<Rightarrow> entry list" where
  "resetPortals pg confirmed portals =
     (if \<not> confirmed then portals
      else case renderPortalList pg [Some createBlankPortal] of
             Inl e \<Rightarrow> [Some createBlankPortal]
           | Inr rendered \<Rightarrow> rendered)"

text \<open>
  What \<^verbatim>\<open>JSON.parse\<close> returned for the imported file, as far as the import looks at
  it: something that is not an array, or an array, whose elements are taken to be
  portal objects or \<^verbatim>\<open>null\<close>. The argument \<open>None\<close> of
  \<open>importPortalsFromFile\<close> is a parse that raised.
\<close>

datatype imported = NotArray | Array "entry list"

definition importPortalsFromFile :: "page \<Rightarrow> imported option \<Rightarrow> entry list \<Rightarrow> entry list" where
  "importPortalsFromFile pg parsed portals =
     (case parsed of
        None \<Rightarrow> portals
      | Some NotArray \<Rightarrow> portals
      | Some (Array imported) \<Rightarrow>
          (case renderPortalList pg imported of
             Inl e \<Rightarrow> imported
           | Inr rendered \<Rightarrow> rendered))"

section \<open>The closest-portal search as the specification words it\<close>

text \<open>
  The candidate set and the distance of section 4.4 of the specification, written
  from its words, for a travel location \<open>(ax, ay, az)\<close> in world \<open>W\<close>, with the
  differences, the squares, the sums and the square root taken in double precision as
  the program takes them. \<open>at_most d R\<close> says that the number \<open>d\<close> is at most \<open>R\<close>,
  and \<open>value_of\<close> is the real value of a finite number.
\<close>

definition spec_complete :: "portal \<Rightarrow> bool" where
  "spec_complete q \<longleftrightarrow> px q \<noteq> None \<and> py q \<noteq> None \<and> pz q \<noteq> None"

definition spec_radius :: "string \<Rightarrow> real" where
  "spec_radius W = (if W = WORLD_NETHER then 16 else 128)"

definition at_most :: "jsnum \<Rightarrow> real \<Rightarrow> bool" where
  "at_most d R = (case d of Finite r \<Rightarrow> r \<le> R | _ \<Rightarrow> False)"

definition value_of :: "jsnum \<Rightarrow> real" where
  "value_of d = (case d of Finite r \<Rightarrow> r | _ \<Rightarrow> 0)"

definition computed_distance :: "jsnum \<Rightarrow> jsnum \<Rightarrow> jsnum \<Rightarrow> portal \<Rightarrow> jsnum" where
  "computed_distance ax ay az q =
     (let dx = fsub (the (px q)) ax;
          dy = fsub (the (py q)) ay;
          dz = fsub (the (pz q)) az
      in fsqrt (fadd (fadd (fmul dx dx) (fmul dy dy)) (fmul dz dz)))"

definition spec_candidate ::
  "nat \<Rightarrow> string \<Rightarrow> jsnum \<Rightarrow> jsnum \<Rightarrow> jsnum \<Rightarrow> nat \<times> portal \<Rightarrow> bool" where
  "spec_candidate index W ax ay az iq \<longleftrightarrow>
     fst iq \<noteq> index \<and> world (snd iq) = W \<and> spec_complete (snd iq)
     \<and> at_most (fabs (fsub (the (px (snd iq))) ax)) (spec_radius W)
     \<and> at_most (fabs (fsub (the (pz (snd iq))) az)) (spec_radius W)
     \<and> is_finite (computed_distance ax ay az (snd iq))"

definition spec_candidates ::
  "portal list \<Rightarrow> nat \<Rightarrow> string \<Rightarrow> jsnum \<Rightarrow> jsnum \<Rightarrow> jsnum \<Rightarrow> portal list" where
  "spec_candidates ps index W ax ay az =
     map snd (filter (spec_candidate index W ax ay az) (enumerate 0 ps))"

definition spec_display_name :: "portal \<Rightarrow> string" where
  "spec_display_name q = (if name q = '''' then ''(unnamed)'' else name q)"

text \<open>The update of the running minimum by one candidate.\<close>

definition keepCloser ::
  "jsnum \<Rightarrow> jsnum \<Rightarrow> jsnum \<Rightarrow> portal option \<times> jsnum \<Rightarrow> portal \<Rightarrow> portal option \<times> jsnum" where
  "keepCloser ax ay az acc q =
     (if num_less (computed_distance ax ay az q) (snd acc)
      then (Some q, computed_distance ax ay az q) else acc)"

section \<open>Example values\<close>



definition far :: real where
  "far = 2 powi 600"

text \<open>
  The object literal of \<open>addPortalFromTopInputs\<close>: a portal with the given name,
  destination, position and world, its derived fields unset.
\<close>

definition newPortal :: "string \<Rightarrow> string \<Rightarrow> coord \<Rightarrow> coord \<Rightarrow> coord \<Rightarrow> string \<Rightarrow> portal" where
  "newPortal n d x y z w =
     \<lparr>name = n, destination = d, px = x, py = y, pz = z, world = w,
      travel = travel_unset, closest = closest_unset, target = target_unset\<rparr>"

text \<open>A page with \<open>n\<close> cards and empty top inputs, which read as the number 0.\<close>

definition emptyTop :: "nat \<Rightarrow> page" where
  "emptyTop n =
     \<lparr>cards = n, topX = Finite 0, topY = Finite 0, topZ = Finite 0,
      topDestination = '''', topWorld = WORLD_OVERWORLD\<rparr>"

text \<open>
  An Overworld portal at (80, 70, 80) after the travel pass, and three Nether portals
  around its travel location (10, 70, 10): \<open>exE\<close> is 17 blocks away in x, outside
  the square of radius 16; the unnamed \<open>exD\<close> and \<open>exF\<close> are both at distance 2.
\<close>

definition exA :: portal where
  "exA = (newPortal ''A'' '''' (Some (Finite 80)) (Some (Finite 70)) (Some (Finite 80))
            WORLD_OVERWORLD)
     \<lparr>travel := \<lparr>tx = Some (Finite 10), ty = Some (Finite 70), tz = Some (Finite 10),
                 tworld = Some WORLD_NETHER\<rparr>\<rparr>"

definition exE :: portal where
  "exE = newPortal ''E'' '''' (Some (Finite 27)) (Some (Finite 70)) (Some (Finite 10)) WORLD_NETHER"

definition exD :: portal where
  "exD = newPortal '''' '''' (Some (Finite 12)) (Some (Finite 70)) (Some (Finite 10)) WORLD_NETHER"

definition exF :: portal where
  "exF = newPortal ''F'' '''' (Some (Finite 8)) (Some (Finite 70)) (Some (Finite 10)) WORLD_NETHER"

text \<open>
  An Overworld portal at (80, 0, 80) after the travel pass, and a Nether portal named K
  straight above its travel location (10, 0, 10), at the height \<open>far\<close>.
\<close>

definition exO :: portal where
  "exO = (newPortal ''O'' '''' (Some (Finite 80)) (Some (Finite 0)) (Some (Finite 80))
            WORLD_OVERWORLD)
     \<lparr>travel := \<lparr>tx = Some (Finite 10), ty = Some (Finite 0), tz = Some (Finite 10),
                 tworld = Some WORLD_NETHER\<rparr>\<rparr>"

definition exK :: portal where
  "exK = newPortal ''K'' '''' (Some (Finite 10)) (Some (Finite far)) (Some (Finite 10)) WORLD_NETHER"

text \<open>
  A portal \<open>exP\<close> with destination T, travelling to the Nether at (10, 70, 10), and
  an Overworld portal \<open>exT\<close> at those very coordinates; \<open>exT\<close> has no destination.
\<close>

definition exP :: portal where
  "exP = (newPortal ''P'' ''T'' (Some (Finite 80)) (Some (Finite 70)) (Some (Finite 80))
            WORLD_OVERWORLD)
     \<lparr>travel := \<lparr>tx = Some (Finite 10), ty = Some (Finite 70), tz = Some (Finite 10),
                 tworld = Some WORLD_NETHER\<rparr>\<rparr>"

definition exT :: portal where
  "exT = newPortal ''T'' '''' (Some (Finite 10)) (Some (Finite 70)) (Some (Finite 10))
           WORLD_OVERWORLD"

definition exQ :: portal where
  "exQ = newPortal ''Q'' '''' (Some (Finite 1)) (Some (Finite 2)) (Some (Finite 3)) WORLD_OVERWORLD"

text \<open>
  A portal \<open>bugA\<close> whose destination is the portal \<open>bugB\<close>, which has x and z but
  no y and lies in the Nether, where \<open>bugA\<close> travels to.
\<close>

definition bugA :: portal where
  "bugA = newPortal ''A'' ''B'' (Some (Finite 0)) (Some (Finite 64)) (Some (Finite 0))
            WORLD_OVERWORLD"

definition bugB :: portal where
  "bugB = newPortal ''B'' '''' (Some (Finite 0)) None (Some (Finite 0)) WORLD_NETHER"


text \<open>
  A stored record with a number for a name, an infinite x, a string for z and an
  unknown world; a storage that holds the text \<^verbatim>\<open>[null]\<close>, and a parser that
  knows this one text.
\<close>

definition exRaw :: jsval where
  "exRaw = JObj [(''name'', JNum (Finite 5)), (''destination'', JStr ''Home''),
                 (''x'', JNum PosInf), (''y'', JNum (Finite 64)), (''z'', JStr ''7''),
                 (''world'', JStr ''End'')]"

definition exParse :: "string \<Rightarrow> jsval option" where
  "exParse s = (if s = ''[null]'' then Some (JArr [JNull]) else None)"

definition exStorage :: "string \<Rightarrow> string option" where
  "exStorage k = (if k = STORAGE_KEY then Some ''[null]'' else None)"

section \<open>Rounding\<close>

text \<open>
  Facts about \<open>round64\<close>. A real is a double when rounding leaves it as it is. An
  integer multiple of a power of two that is at least the spacing at \<open>r\<close> is a
  double; doubles stay doubles under scaling by a power of two as long as the result
  neither overflows nor falls below the normal range, and under \<open>floor\<close>; integers
  below two to the 53 are doubles.
\<close>

lemma binade_eq: "r \<noteq> 0 \<Longrightarrow> binade r = k \<longleftrightarrow> 2 powi k \<le> \<bar>r\<bar> \<and> \<bar>r\<bar> < 2 powi (k + 1)"
proof -
  assume "r \<noteq> 0"
  then have pos: "0 < \<bar>r\<bar>" by simp
  have p1: "2 powr real_of_int k = (2::real) powi k"
    by (simp add: powr_real_of_int')
  have p2: "2 powr real_of_int (k + 1) = (2::real) powi (k + 1)"
    by (rule powr_real_of_int') simp_all
  show ?thesis
    unfolding binade_def using floor_log_eq_powr_iff [OF pos, of 2 k] p1 p2 by simp
qed

lemma binade_pow2 [simp]: "binade (2 powi k) = k" "binade (- (2 powi k)) = k"
  by (simp_all add: binade_eq power_int_add)


lemma round_half_even_int [simp]: "round_half_even (of_int n) = n"
  by (simp add: round_half_even_def)

lemma round64_multiple:
  assumes "r = of_int n * 2 powi e'" "max (binade r) (- 1022) - 52 \<le> e'" "\<bar>r\<bar> < 2 ^ 1024"
  shows "round64 r = Finite r"
proof (cases "r = 0")
  case True
  then show ?thesis by (simp add: round64_def)
next
  case False
  define e where "e = max (binade r) (- 1022) - 52"
  have "r / 2 powi e = of_int n * 2 powi (e' - e)"
    by (simp add: assms(1) power_int_diff)
  also have "2 powi (e' - e) = (2::real) ^ nat (e' - e)"
    using assms(2) by (simp add: e_def power_int_def)
  also have "of_int n * (2::real) ^ nat (e' - e) = of_int (n * 2 ^ nat (e' - e))"
    by simp
  finally have q: "r / 2 powi e = of_int (n * 2 ^ nat (e' - e))" .
  have "of_int (round_half_even (r / 2 powi e)) * 2 powi e = r"
    unfolding q round_half_even_int using q by (simp add: field_simps)
  then show ?thesis
    using False assms(3) by (simp add: round64_def Let_def e_def [symmetric])
qed



lemma pow2_less_iff: "(2::real) powi a < 2 powi b \<longleftrightarrow> a < b"
proof
  assume less: "(2::real) powi a < 2 powi b"
  show "a < b"
  proof (rule ccontr)
    assume "\<not> a < b"
    then have "(2::real) powi b \<le> 2 powi a"
      by (intro power_int_increasing) simp_all
    with less show False by simp
  qed
next
  assume "a < b"
  then show "(2::real) powi a < 2 powi b"
    by (intro power_int_strict_increasing) simp_all
qed

lemma binade_less: "r \<noteq> 0 \<Longrightarrow> \<bar>r\<bar> < 2 powi k \<Longrightarrow> binade r < k"
proof -
  assume r: "r \<noteq> 0" and less: "\<bar>r\<bar> < 2 powi k"
  have "2 powi binade r \<le> \<bar>r\<bar>"
    using binade_eq [OF r, of "binade r"] by simp
  with less have "(2::real) powi binade r < 2 powi k" by simp
  then show ?thesis by (simp add: pow2_less_iff)
qed


lemma round64_int:
  assumes "\<bar>n\<bar> < 2 ^ 53"
  shows "round64 (of_int n) = Finite (of_int n)"
proof (cases "n = 0")
  case True
  then show ?thesis by (simp add: round64_def)
next
  case False
  have "\<bar>real_of_int n\<bar> < 2 ^ 53"
    using assms by (metis of_int_abs of_int_less_numeral_power_cancel_iff)
  then have small: "\<bar>real_of_int n\<bar> < 2 powi 53" by simp
  have "binade (of_int n) < 53"
    using False by (intro binade_less small) simp
  then have "max (binade (real_of_int n)) (- 1022) - 52 \<le> 0" by simp
  moreover have "real_of_int n = of_int n * 2 powi 0" by simp
  moreover have "\<bar>real_of_int n\<bar> < 2 ^ 1024"
    using \<open>\<bar>real_of_int n\<bar> < 2 ^ 53\<close> by (rule less_trans) simp
  ultimately show ?thesis
    using round64_multiple [of "real_of_int n" n 0] by simp
qed

lemma round64_numeral [simp]:
  "numeral k < (2::int) ^ 53 \<Longrightarrow> round64 (numeral k) = Finite (numeral k)"
  using round64_int [of "numeral k"] by simp

lemma round64_zero [simp]: "round64 0 = Finite 0"
  by (simp add: round64_def)

lemma round64_one [simp]: "round64 1 = Finite 1"
  using round64_int [of 1] by simp

lemma round64_pow2:
  "- 1074 \<le> k \<Longrightarrow> k < 1024 \<Longrightarrow> round64 (2 powi k) = Finite (2 powi k)"
  "1024 \<le> k \<Longrightarrow> round64 (2 powi k) = PosInf"
proof -
  assume k: "- 1074 \<le> k" "k < 1024"
  have "(2::real) powi k = of_int 1 * 2 powi k" by simp
  moreover have "max (binade ((2::real) powi k)) (- 1022) - 52 \<le> k"
    using k by simp
  moreover have "\<bar>(2::real) powi k\<bar> < 2 ^ 1024"
    using k power_int_strict_increasing [of k 1024 "2::real"] by simp
  ultimately show "round64 (2 powi k) = Finite (2 powi k)"
    by (rule round64_multiple)
next
  assume k: "1024 \<le> k"
  have q: "(2::real) powi k / 2 powi (k - 52) = of_int (2 ^ 52)"
    by (simp add: power_int_diff)
  have v: "of_int (round_half_even (2 powi k / 2 powi (k - 52))) * 2 powi (k - 52) = (2::real) powi k"
    unfolding q round_half_even_int by (simp add: power_int_diff)
  have big: "(2::real) ^ 1024 \<le> 2 powi k"
    using k power_int_increasing [of 1024 k "2::real"] by simp
  have e: "max (binade ((2::real) powi k)) (- 1022) - 52 = k - 52"
    using k by simp
  show "round64 (2 powi k) = PosInf"
    unfolding round64_def Let_def e v using big by simp
qed



text \<open>
  Negative integers; results below half the smallest double round to zero; and the
  division by 8 and the multiplication by 8 of the conversion are exact on doubles
  within the stated ranges.
\<close>

lemma round64_neg_numeral [simp]:
  "numeral k < (2::int) ^ 53 \<Longrightarrow> round64 (- numeral k) = Finite (- numeral k)"
  using round64_int [of "- numeral k"] by simp

lemma round64_NegInf: "round64 r = NegInf \<Longrightarrow> r < 0"
  by (auto simp: round64_def Let_def split: if_splits)














section \<open>Conversion and distance\<close>


text \<open>
  C7: whenever one of its coordinate arguments is unset, \<open>distance3D\<close> returns
  unset and \<open>convertCoords\<close> returns both outputs unset; both are plain values, so
  nothing is raised and no number (in particular no NaN) is produced.
\<close>

theorem unset_coordinates_give_unset:
  "(x1 = None \<or> y1 = None \<or> z1 = None \<or> x2 = None \<or> y2 = None \<or> z2 = None
      \<longrightarrow> distance3D x1 y1 z1 x2 y2 z2 = None)
   \<and> (x = None \<or> z = None \<longrightarrow> convertCoords x z fromWorld toWorld = (None, None))"
  by (auto simp: distance3D_def convertCoords_def split: option.splits)

theorem unset_coordinates_give_unset_witness:
  "distance3D (Some (Finite 1)) (Some (Finite 2)) None
       (Some (Finite 4)) (Some (Finite 5)) (Some (Finite 6)) = None
   \<and> convertCoords None (Some (Finite 16)) WORLD_OVERWORLD WORLD_NETHER = (None, None)"
  using unset_coordinates_give_unset
    [of "Some (Finite 1)" "Some (Finite 2)" None "Some (Finite 4)" "Some (Finite 5)"
        "Some (Finite 6)" None "Some (Finite 16)" WORLD_OVERWORLD WORLD_NETHER]
  by simp







section \<open>Closest-portal search\<close>

text \<open>
  The range test of the loop, against the range test of the specification: a
  difference that is not a number passes the test of the code; the distance is then
  not a number either, and never below the running minimum. The square root is
  never the negative infinity.
\<close>

lemma fsqrt_not_NegInf: "fsqrt v \<noteq> NegInf"
proof (cases v)
  case (Finite x)
  show ?thesis
  proof
    assume "fsqrt v = NegInf"
    with Finite have "0 \<le> x" "round64 (sqrt x) = NegInf"
      by (simp_all split: if_splits)
    then show False using round64_NegInf [of "sqrt x"] by simp
  qed
qed simp_all

lemma num_less_value:
  "is_finite a \<Longrightarrow> is_finite b \<Longrightarrow> num_less a b \<longleftrightarrow> value_of a < value_of b"
  by (cases a; cases b) (simp_all add: value_of_def)

lemma num_less_PosInf: "is_finite a \<Longrightarrow> num_less a PosInf"
  by (cases a) simp_all

lemma range_test:
  "num_less (Finite R) (fabs v) \<Longrightarrow> \<not> at_most (fabs v) R"
  "\<not> num_less (Finite R) (fabs v) \<Longrightarrow> \<not> at_most (fabs v) R \<Longrightarrow> v = NaN"
  by (cases v; simp add: at_most_def)+

lemma computed_distance_NaN:
  assumes "fsub (the (px q)) ax = NaN \<or> fsub (the (pz q)) az = NaN"
  shows "computed_distance ax ay az q = NaN"
proof -
  have r: "fadd a NaN = NaN" for a by (cases a) simp_all
  from assms show ?thesis
    unfolding computed_distance_def Let_def by (auto simp: r)
qed

lemma not_finite_not_less:
  assumes "\<not> is_finite (computed_distance ax ay az q)"
  shows "\<not> num_less (computed_distance ax ay az q) b"
proof -
  have "computed_distance ax ay az q \<noteq> NegInf"
    unfolding computed_distance_def Let_def by (rule fsqrt_not_NegInf)
  with assms show ?thesis
    by (cases "computed_distance ax ay az q"; cases b) simp_all
qed

text \<open>
  On a list of portal objects the loop of \<open>computeClosestPortal\<close> never raises, and
  it is the left fold of \<open>keepCloser\<close> over the candidates, in list order. A
  candidate whose y is unset passes the guard on x and z and is then dropped because
  \<open>distance3D\<close> returns unset.
\<close>

lemma distance3D_complete:
  "distance3D (Some ax) (Some ay) (Some az) (px q) (py q) (pz q)
     = (if spec_complete q then Some (computed_distance ax ay az q) else None)"
  by (auto simp: distance3D_def spec_complete_def computed_distance_def Let_def)

lemma closestVisit_portal:
  assumes "tx tr = Some ax" "ty tr = Some ay" "tz tr = Some az"
  shows "closestVisit tr ax az (Some W) (Finite (spec_radius W)) index i (Some q) acc
     = Inr (if spec_candidate index W ax ay az (i, q) then keepCloser ax ay az acc q else acc)"
proof (cases "i \<noteq> index \<and> world q = W \<and> spec_complete q")
  case False
  then show ?thesis
    using assms
    by (auto simp: closestVisit_def distance3D_complete spec_candidate_def Let_def
          split: option.splits)
next
  case True
  then obtain ox oy oz where q: "px q = Some ox" "py q = Some oy" "pz q = Some oz"
    by (auto simp: spec_complete_def)
  let ?dx = "fabs (fsub ox ax)" and ?dz = "fabs (fsub oz az)"
  let ?d = "computed_distance ax ay az q"
  have visit: "closestVisit tr ax az (Some W) (Finite (spec_radius W)) index i (Some q) acc
     = Inr (if num_less (Finite (spec_radius W)) ?dx \<or> num_less (Finite (spec_radius W)) ?dz
            then acc else if num_less ?d (snd acc) then (Some q, ?d) else acc)"
    using True assms q
    by (simp add: closestVisit_def Let_def distance3D_complete [of ax ay az q, unfolded q])
  have cand: "spec_candidate index W ax ay az (i, q)
     \<longleftrightarrow> at_most ?dx (spec_radius W) \<and> at_most ?dz (spec_radius W) \<and> is_finite ?d"
    using True q by (simp add: spec_candidate_def)
  show ?thesis
  proof (cases "num_less (Finite (spec_radius W)) ?dx \<or> num_less (Finite (spec_radius W)) ?dz")
    case True
    then have "\<not> spec_candidate index W ax ay az (i, q)"
      using range_test(1) [of "spec_radius W"] by (auto simp: cand)
    with True show ?thesis by (simp add: visit)
  next
    case inside: False
    show ?thesis
    proof (cases "spec_candidate index W ax ay az (i, q)")
      case True
      with inside show ?thesis by (simp add: visit keepCloser_def)
    next
      case False
      have "\<not> num_less ?d (snd acc)"
      proof (cases "is_finite ?d")
        case True
        with False cand inside have "fsub ox ax = NaN \<or> fsub oz az = NaN"
          using range_test(2) [of "spec_radius W"] by blast
        then have "?d = NaN"
          using computed_distance_NaN [of q ax az ay] q by simp
        with True show ?thesis by simp
      next
        case False
        then show ?thesis by (rule not_finite_not_less)
      qed
      with False inside show ?thesis by (simp add: visit)
    qed
  qed
qed

lemma closestLoop_portals:
  assumes "tx tr = Some ax" "ty tr = Some ay" "tz tr = Some az"
  shows "closestLoop tr ax az (Some W) (Finite (spec_radius W)) index i (map Some ps) acc
     = Inr (foldl (keepCloser ax ay az) acc
              (map snd (filter (spec_candidate index W ax ay az) (enumerate i ps))))"
proof (induction ps arbitrary: i acc)
  case Nil
  show ?case by simp
next
  case (Cons q ps)
  show ?case
    by (simp add: closestVisit_portal [OF assms] Cons.IH)
qed

lemma spec_candidates_finite:
  "q \<in> set (spec_candidates ps index W ax ay az) \<Longrightarrow> is_finite (computed_distance ax ay az q)"
  by (auto simp: spec_candidates_def spec_candidate_def)

lemma keepCloser_first_minimum:
  assumes "\<forall>q\<in>set qs. is_finite (computed_distance ax ay az q)"
  shows "(qs = [] \<and> foldl (keepCloser ax ay az) (None, PosInf) qs = (None, PosInf))
   \<or> (\<exists>k<length qs.
         foldl (keepCloser ax ay az) (None, PosInf) qs
           = (Some (qs ! k), computed_distance ax ay az (qs ! k))
         \<and> (\<forall>j<length qs. value_of (computed_distance ax ay az (qs ! k))
                \<le> value_of (computed_distance ax ay az (qs ! j)))
         \<and> (\<forall>j<k. value_of (computed_distance ax ay az (qs ! k))
                < value_of (computed_distance ax ay az (qs ! j))))"
  using assms
proof (induction qs rule: rev_induct)
  case Nil
  show ?case by simp
next
  case (snoc q qs)
  let ?c = "computed_distance ax ay az"
  let ?d = "\<lambda>q. value_of (computed_distance ax ay az q)"
  have finq: "is_finite (?c q)"
    using snoc.prems by simp
  have earlier: "\<forall>q\<in>set qs. is_finite (?c q)"
    using snoc.prems by simp
  show ?case
  proof (cases "qs = []")
    case True
    then show ?thesis by (simp add: keepCloser_def num_less_PosInf [OF finq])
  next
    case False
    with snoc.IH [OF earlier] obtain k where k: "k < length qs"
      and res: "foldl (keepCloser ax ay az) (None, PosInf) qs = (Some (qs ! k), ?c (qs ! k))"
      and least: "\<forall>j<length qs. ?d (qs ! k) \<le> ?d (qs ! j)"
      and first: "\<forall>j<k. ?d (qs ! k) < ?d (qs ! j)"
      by blast
    have fink: "is_finite (?c (qs ! k))"
      using k earlier by simp
    show ?thesis
    proof (cases "?d q < ?d (qs ! k)")
      case True
      have "num_less (?c q) (?c (qs ! k))"
        using True by (simp add: num_less_value [OF finq fink])
      then have "foldl (keepCloser ax ay az) (None, PosInf) (qs @ [q]) = (Some q, ?c q)"
        by (simp add: res keepCloser_def)
      moreover have "\<forall>j<length (qs @ [q]). ?d q \<le> ?d ((qs @ [q]) ! j)"
        using True least by (auto simp: nth_append less_Suc_eq intro: less_imp_le order_trans)
      moreover have "\<forall>j<length qs. ?d q < ?d ((qs @ [q]) ! j)"
        using True least by (auto simp: nth_append intro: less_le_trans)
      ultimately show ?thesis
        by (intro disjI2 exI [of _ "length qs"]) simp
    next
      case False
      have "\<not> num_less (?c q) (?c (qs ! k))"
        using False by (simp add: num_less_value [OF finq fink])
      then have "foldl (keepCloser ax ay az) (None, PosInf) (qs @ [q])
          = (Some (qs ! k), ?c (qs ! k))"
        by (simp add: res keepCloser_def)
      moreover have "\<forall>j<length (qs @ [q]). ?d (qs ! k) \<le> ?d ((qs @ [q]) ! j)"
        using False least by (auto simp: nth_append less_Suc_eq)
      moreover have "\<forall>j<k. ?d (qs ! k) < ?d ((qs @ [q]) ! j)"
        using first k by (auto simp: nth_append)
      ultimately show ?thesis
        using k by (intro disjI2 exI [of _ k]) (simp add: nth_append)
    qed
  qed
qed

text \<open>
  C1, as the code has it: let portal \<open>P\<close> have the travel location \<open>(ax, ay, az)\<close>
  in world \<open>W\<close>. The search run for \<open>P\<close> at position \<open>index\<close> of a list of portals
  sets only the closest field of \<open>P\<close>. All arithmetic is in double precision. The
  candidates are the portals at the other positions whose world is \<open>W\<close>, whose
  position is complete, whose computed differences in x and z from \<open>ax\<close> and \<open>az\<close>
  are at most \<open>spec_radius W\<close> in magnitude (16 for the Nether, 128 otherwise), and
  whose computed 3D distance is finite. With no candidate, name and distance are
  unset. Otherwise the result is the display name (\<open>(unnamed)\<close> for an empty name)
  and the computed distance of the candidate at some position \<open>k\<close> of the candidate
  list whose computed distance is minimal and strictly smaller than that of every
  earlier candidate: the first of the nearest, by computed distance.
\<close>

theorem closest_portal_search:
  assumes "travel P = \<lparr>tx = Some ax, ty = Some ay, tz = Some az, tworld = Some W\<rparr>"
  shows "\<exists>c. computeClosestPortal (map Some ps) (Some P) index = Inr (P\<lparr>closest := c\<rparr>)
     \<and> (spec_candidates ps index W ax ay az = [] \<longrightarrow> c = closest_unset)
     \<and> (spec_candidates ps index W ax ay az \<noteq> [] \<longrightarrow>
          (\<exists>k<length (spec_candidates ps index W ax ay az).
             c = \<lparr>cname = Some (spec_display_name (spec_candidates ps index W ax ay az ! k)),
                  cdistance = Some (computed_distance ax ay az
                                      (spec_candidates ps index W ax ay az ! k))\<rparr>
             \<and> (\<forall>j<length (spec_candidates ps index W ax ay az).
                   value_of (computed_distance ax ay az (spec_candidates ps index W ax ay az ! k))
                     \<le> value_of (computed_distance ax ay az
                                   (spec_candidates ps index W ax ay az ! j)))
             \<and> (\<forall>j<k. value_of (computed_distance ax ay az
                                   (spec_candidates ps index W ax ay az ! k))
                     < value_of (computed_distance ax ay az
                                   (spec_candidates ps index W ax ay az ! j)))))"
proof -
  let ?cs = "spec_candidates ps index W ax ay az"
  let ?acc = "foldl (keepCloser ax ay az) (None, PosInf) ?cs"
  let ?c = "computed_distance ax ay az"
  let ?d = "\<lambda>q. value_of (computed_distance ax ay az q)"
  have tr: "tx (travel P) = Some ax" "ty (travel P) = Some ay" "tz (travel P) = Some az"
    "tworld (travel P) = Some W"
    using assms by simp_all
  have rad: "(if Some W = Some WORLD_NETHER then Finite 16 else Finite 128)
      = Finite (spec_radius W)"
    by (simp add: spec_radius_def)
  have loop: "closestLoop (travel P) ax az (Some W) (Finite (spec_radius W)) index 0
                (map Some ps) (None, PosInf) = Inr ?acc"
    unfolding spec_candidates_def by (rule closestLoop_portals [OF tr(1-3)])
  have run: "computeClosestPortal (map Some ps) (Some P) index
     = Inr (P\<lparr>closest := (case fst ?acc of
                Some b \<Rightarrow> \<lparr>cname = Some (spec_display_name b), cdistance = Some (snd ?acc)\<rparr>
              | None \<Rightarrow> closest_unset)\<rparr>)"
    unfolding computeClosestPortal_def
    by (simp only: option.case tr Let_def prod.case rad Infinity_def loop sum.case)
      (simp add: spec_display_name_def case_prod_beta split: option.splits)
  have fin: "\<forall>q\<in>set ?cs. is_finite (?c q)"
    using spec_candidates_finite by blast
  from keepCloser_first_minimum [OF fin] show ?thesis
  proof
    assume "?cs = [] \<and> ?acc = (None, PosInf)"
    then show ?thesis using run by simp
  next
    assume "\<exists>k<length ?cs. ?acc = (Some (?cs ! k), ?c (?cs ! k))
         \<and> (\<forall>j<length ?cs. ?d (?cs ! k) \<le> ?d (?cs ! j))
         \<and> (\<forall>j<k. ?d (?cs ! k) < ?d (?cs ! j))"
    then obtain k where k: "k < length ?cs"
      and acc: "?acc = (Some (?cs ! k), ?c (?cs ! k))"
      and least: "\<forall>j<length ?cs. ?d (?cs ! k) \<le> ?d (?cs ! j)"
      and first: "\<forall>j<k. ?d (?cs ! k) < ?d (?cs ! j)"
      by blast
    have nonempty: "?cs \<noteq> []" using k by auto
    show ?thesis
      using run acc k least first nonempty by auto
  qed
qed

theorem closest_portal_search_witness:
  "computeClosestPortal (map Some [exA, exE, exD, exF]) (Some exA) 0
     = Inr (exA\<lparr>closest := \<lparr>cname = Some ''(unnamed)'', cdistance = Some (Finite 2)\<rparr>\<rparr>)"
proof -
  have tr: "travel exA = \<lparr>tx = Some (Finite 10), ty = Some (Finite 70), tz = Some (Finite 10),
      tworld = Some WORLD_NETHER\<rparr>"
    by (simp add: exA_def)
  have d: "computed_distance (Finite 10) (Finite 70) (Finite 10) exD = Finite 2"
    "computed_distance (Finite 10) (Finite 70) (Finite 10) exF = Finite 2"
    by (simp_all add: computed_distance_def exD_def exF_def newPortal_def)
  have cs: "spec_candidates [exA, exE, exD, exF] 0 WORLD_NETHER (Finite 10) (Finite 70) (Finite 10)
      = [exD, exF]"
    by (simp add: spec_candidates_def enumerate_eq_zip upt_rec spec_candidate_def d)
      (simp add: spec_complete_def spec_radius_def at_most_def exA_def exE_def exD_def exF_def
        newPortal_def WORLD_NETHER_def WORLD_OVERWORLD_def)
  have n: "spec_display_name exD = ''(unnamed)''"
    by (simp add: spec_display_name_def exD_def newPortal_def)
  from closest_portal_search [OF tr, of "[exA, exE, exD, exF]" 0]
  show ?thesis
    unfolding cs by (auto simp: d n less_Suc_eq value_of_def)
qed

text \<open>
  The distance overflows for a portal far above the travel location: \<open>exK\<close> is in
  the world of the travel location of \<open>exO\<close>, its position is complete and its x and
  z are those of the travel location, yet the search leaves the closest field unset,
  because the square of the difference in y is infinite and an infinite distance is
  not below the initial minimum.
\<close>

theorem closest_portal_search_counterexample:
  "travel exO = \<lparr>tx = Some (Finite 10), ty = Some (Finite 0), tz = Some (Finite 10),
      tworld = Some WORLD_NETHER\<rparr>
   \<and> world exK = WORLD_NETHER \<and> spec_complete exK
   \<and> fabs (fsub (the (px exK)) (Finite 10)) = Finite 0
   \<and> fabs (fsub (the (pz exK)) (Finite 10)) = Finite 0
   \<and> computeClosestPortal (map Some [exO, exK]) (Some exO) 0
       = Inr (exO\<lparr>closest := closest_unset\<rparr>)"
proof -
  have f: "round64 far = Finite far"
    unfolding far_def by (rule round64_pow2) simp_all
  have "far * far = 2 powi (600 + 600)"
    unfolding far_def by (subst power_int_add) simp_all
  then have sq: "round64 (far * far) = PosInf"
    using round64_pow2(2) [of 1200] by simp
  have d: "distance3D (Some (Finite 10)) (Some (Finite 0)) (Some (Finite 10))
      (Some (Finite 10)) (Some (Finite far)) (Some (Finite 10)) = Some PosInf"
    by (simp add: distance3D_def Let_def f sq)
  show ?thesis
    by (simp add: computeClosestPortal_def closestVisit_def Let_def exO_def exK_def
        newPortal_def spec_complete_def d Infinity_def WORLD_NETHER_def WORLD_OVERWORLD_def)
qed

section \<open>Target reachability\<close>

text \<open>
  On a list of portal objects the lookup by name is the first portal of the list with
  that name; whatever the lookup returns bears the name it was asked for.
\<close>

lemma findByName_portals:
  "findByName (map Some ps) d = Inr (List.find (\<lambda>q. name q = d) ps)"
  by (induction ps) simp_all

lemma findByName_name: "findByName es d = Inr (Some t) \<Longrightarrow> name t = d"
  by (induction es d rule: findByName.induct) (auto split: if_splits)

text \<open>
  C4: when the non-empty destination of \<open>P\<close> resolves to the portal \<open>t\<close> (the first
  of the list with that name), \<open>t\<close> has a complete position, and the world of
  \<open>P\<close>'s travel location is not the world of \<open>t\<close>, the target of \<open>P\<close> is the
  name of \<open>t\<close> with the sentinel \<open>CannotReach\<close>, whatever the coordinates are.
\<close>

theorem cross_world_target_unreachable:
  assumes "destination P \<noteq> ''''"
    and "List.find (\<lambda>q. name q = destination P) ps = Some t"
    and "spec_complete t"
    and "tworld (travel P) \<noteq> Some (world t)"
  shows "computeTargetPortal (map Some ps) (Some P)
     = Inr (P\<lparr>target := \<lparr>gname = Some (name t), gdistance = CannotReach\<rparr>\<rparr>)"
  using assms
  by (auto simp: computeTargetPortal_def findByName_portals spec_complete_def Let_def
        split: option.splits)

theorem cross_world_target_unreachable_witness:
  "computeTargetPortal (map Some [exP, exQ, exT]) (Some exP)
     = Inr (exP\<lparr>target := \<lparr>gname = Some ''T'', gdistance = CannotReach\<rparr>\<rparr>)"
proof -
  have "destination exP \<noteq> ''''"
    by (simp add: exP_def newPortal_def)
  moreover have "List.find (\<lambda>q. name q = destination exP) [exP, exQ, exT] = Some exT"
    by (simp add: exP_def exQ_def exT_def newPortal_def)
  moreover have "spec_complete exT"
    by (simp add: spec_complete_def exT_def newPortal_def)
  moreover have "tworld (travel exP) \<noteq> Some (world exT)"
    by (simp add: exP_def exT_def newPortal_def WORLD_NETHER_def WORLD_OVERWORLD_def)
  ultimately show ?thesis
    using cross_world_target_unreachable [of exP "[exP, exQ, exT]" exT]
    by (simp add: exT_def newPortal_def)
qed

text \<open>
  C10: for a portal whose destination is the empty string the target is set fully
  unset, and no lookup is made: the result is the same on every list, also on one whose
  first element is \<^verbatim>\<open>null\<close>, where a lookup would raise. Hence whenever target
  derivation returns, the name in the target is not the empty string: a portal with an
  empty name is never resolved as a target.
\<close>

theorem empty_destination_no_lookup:
  "(destination P = '''' \<longrightarrow> computeTargetPortal es (Some P) = Inr (P\<lparr>target := target_unset\<rparr>))
   \<and> (computeTargetPortal es' (Some Q) = Inr Q' \<longrightarrow> gname (target Q') \<noteq> Some '''')"
proof
  show "destination P = '''' \<longrightarrow> computeTargetPortal es (Some P) = Inr (P\<lparr>target := target_unset\<rparr>)"
    by (simp add: computeTargetPortal_def)
next
  show "computeTargetPortal es' (Some Q) = Inr Q' \<longrightarrow> gname (target Q') \<noteq> Some ''''"
  proof
    assume run: "computeTargetPortal es' (Some Q) = Inr Q'"
    show "gname (target Q') \<noteq> Some ''''"
    proof (cases "destination Q = ''''")
      case True
      with run show ?thesis
        by (auto simp: computeTargetPortal_def target_unset_def)
    next
      case False
      show ?thesis
      proof (cases "findByName es' (destination Q)")
        case (Inl e)
        with run False show ?thesis
          by (simp add: computeTargetPortal_def)
      next
        case (Inr found)
        show ?thesis
        proof (cases found)
          case None
          with run False Inr show ?thesis
            by (auto simp: computeTargetPortal_def target_unset_def)
        next
          case (Some t)
          with Inr have "name t = destination Q"
            by (simp add: findByName_name)
          with False have "name t \<noteq> ''''" by simp
          with run False Inr Some show ?thesis
            by (auto simp: computeTargetPortal_def target_unset_def Let_def
                  split: option.splits if_splits)
        qed
      qed
    qed
  qed
qed

theorem empty_destination_no_lookup_witness:
  "computeTargetPortal [None, Some exT] (Some exT) = Inr (exT\<lparr>target := target_unset\<rparr>)
   \<and> gname (target (exP\<lparr>target := \<lparr>gname = Some ''T'', gdistance = CannotReach\<rparr>\<rparr>)) \<noteq> Some ''''"
proof -
  have d: "destination exT = ''''"
    by (simp add: exT_def newPortal_def)
  have run: "computeTargetPortal (map Some [exP, exQ, exT]) (Some exP)
     = Inr (exP\<lparr>target := \<lparr>gname = Some ''T'', gdistance = CannotReach\<rparr>\<rparr>)"
    by (simp add: computeTargetPortal_def exP_def exQ_def exT_def newPortal_def
          WORLD_NETHER_def WORLD_OVERWORLD_def)
  from empty_destination_no_lookup [of exT "[None, Some exT]" "map Some [exP, exQ, exT]" exP
      "exP\<lparr>target := \<lparr>gname = Some ''T'', gdistance = CannotReach\<rparr>\<rparr>"] d run
  show ?thesis by blast
qed

text \<open>
  The guard of \<open>computeTargetPortal\<close> looks at the x and z of the resolved portal
  and not at its y. When no portal of the list has the destination of \<open>P\<close> for its
  name, or the first one that has it lacks its x or its z, the target of \<open>P\<close> is
  fully unset.
\<close>

lemma target_unset_without_x_or_z:
  assumes "destination P \<noteq> ''''"
    and "List.find (\<lambda>q. name q = destination P) ps = None
         \<or> (\<exists>t. List.find (\<lambda>q. name q = destination P) ps = Some t \<and> (px t = None \<or> pz t = None))"
  shows "computeTargetPortal (map Some ps) (Some P) = Inr (P\<lparr>target := target_unset\<rparr>)"
  using assms
  by (auto simp: computeTargetPortal_def findByName_portals split: option.splits)

text \<open>
  Two sweeps over \<open>bugA\<close> and \<open>bugB\<close>, on a page with two cards and empty top
  inputs: with \<open>bugB\<close> in the Nether, and with \<open>bugB\<close> in the Overworld.
\<close>

lemma sweep_incomplete_target:
  "updateAllPortalCalculations (emptyTop 2) [Some bugA, Some bugB]
     = ([Some (bugA\<lparr>travel := \<lparr>tx = Some (Finite 0), ty = Some (Finite 64), tz = Some (Finite 0),
                                tworld = Some WORLD_NETHER\<rparr>,
                    target := \<lparr>gname = Some ''B'', gdistance = DNull\<rparr>\<rparr>),
         Some bugB], Some TypeError)
   \<and> updateAllPortalCalculations (emptyTop 2) [Some bugA, Some (bugB\<lparr>world := WORLD_OVERWORLD\<rparr>)]
     = ([Some (bugA\<lparr>travel := \<lparr>tx = Some (Finite 0), ty = Some (Finite 64), tz = Some (Finite 0),
                                tworld = Some WORLD_NETHER\<rparr>,
                    target := \<lparr>gname = Some ''B'', gdistance = CannotReach\<rparr>\<rparr>),
         Some (bugB\<lparr>world := WORLD_OVERWORLD\<rparr>)], None)"
proof -
  have passes: "forEach (\<lambda>ps portal index. computePortalTravelLocation portal)
        [Some bugA, Some (bugB\<lparr>world := w\<rparr>)]
      = ([Some (bugA\<lparr>travel := \<lparr>tx = Some (Finite 0), ty = Some (Finite 64),
                                 tz = Some (Finite 0), tworld = Some WORLD_NETHER\<rparr>\<rparr>),
          Some (bugB\<lparr>world := w\<rparr>)], None)" for w
    by (simp add: forEach_def forEachFrom.simps computePortalTravelLocation_def
          convertCoords_def bugA_def bugB_def newPortal_def Let_def travel_unset_def)
  have closest: "forEach (\<lambda>ps portal index. computeClosestPortal ps portal index)
        [Some (bugA\<lparr>travel := \<lparr>tx = Some (Finite 0), ty = Some (Finite 64),
                                 tz = Some (Finite 0), tworld = Some WORLD_NETHER\<rparr>\<rparr>),
          Some (bugB\<lparr>world := w\<rparr>)]
      = ([Some (bugA\<lparr>travel := \<lparr>tx = Some (Finite 0), ty = Some (Finite 64),
                                 tz = Some (Finite 0), tworld = Some WORLD_NETHER\<rparr>\<rparr>),
          Some (bugB\<lparr>world := w\<rparr>)], None)" for w
    by (simp add: forEach_def forEachFrom.simps computeClosestPortal_def closestVisit_def
          distance3D_def bugA_def bugB_def newPortal_def Let_def Infinity_def
          travel_unset_def closest_unset_def)
  have target_in: "forEach (\<lambda>ps portal index. computeTargetPortal ps portal)
        [Some (bugA\<lparr>travel := \<lparr>tx = Some (Finite 0), ty = Some (Finite 64),
                                 tz = Some (Finite 0), tworld = Some WORLD_NETHER\<rparr>\<rparr>),
          Some bugB]
      = ([Some (bugA\<lparr>travel := \<lparr>tx = Some (Finite 0), ty = Some (Finite 64),
                                 tz = Some (Finite 0), tworld = Some WORLD_NETHER\<rparr>,
                     target := \<lparr>gname = Some ''B'', gdistance = DNull\<rparr>\<rparr>),
          Some bugB], None)"
    by (simp add: forEach_def forEachFrom.simps computeTargetPortal_def
          distance3D_def bugA_def bugB_def newPortal_def Let_def target_unset_def)
  have target_out: "forEach (\<lambda>ps portal index. computeTargetPortal ps portal)
        [Some (bugA\<lparr>travel := \<lparr>tx = Some (Finite 0), ty = Some (Finite 64),
                                 tz = Some (Finite 0), tworld = Some WORLD_NETHER\<rparr>\<rparr>),
          Some (bugB\<lparr>world := WORLD_OVERWORLD\<rparr>)]
      = ([Some (bugA\<lparr>travel := \<lparr>tx = Some (Finite 0), ty = Some (Finite 64),
                                 tz = Some (Finite 0), tworld = Some WORLD_NETHER\<rparr>,
                     target := \<lparr>gname = Some ''B'', gdistance = CannotReach\<rparr>\<rparr>),
          Some (bugB\<lparr>world := WORLD_OVERWORLD\<rparr>)], None)"
    by (simp add: forEach_def forEachFrom.simps computeTargetPortal_def
          bugA_def bugB_def newPortal_def Let_def target_unset_def
          WORLD_NETHER_def WORLD_OVERWORLD_def)
  have same: "bugB\<lparr>world := WORLD_NETHER\<rparr> = bugB"
    by (simp add: bugB_def newPortal_def)
  have display_in: "updatePortalCardDisplays (emptyTop 2)
        [Some (bugA\<lparr>travel := \<lparr>tx = Some (Finite 0), ty = Some (Finite 64),
                                 tz = Some (Finite 0), tworld = Some WORLD_NETHER\<rparr>,
                     target := \<lparr>gname = Some ''B'', gdistance = DNull\<rparr>\<rparr>),
          Some bugB] = Inl TypeError"
    by (simp add: updatePortalCardDisplays_def emptyTop_def numeral_2_eq_2 displayCard_def
          bugA_def newPortal_def closest_unset_def CannotReach_def)
  have display_out: "updatePortalCardDisplays (emptyTop 2)
        [Some (bugA\<lparr>travel := \<lparr>tx = Some (Finite 0), ty = Some (Finite 64),
                                 tz = Some (Finite 0), tworld = Some WORLD_NETHER\<rparr>,
                     target := \<lparr>gname = Some ''B'', gdistance = CannotReach\<rparr>\<rparr>),
          Some (bugB\<lparr>world := WORLD_OVERWORLD\<rparr>)] = Inr ()"
    by (simp add: updatePortalCardDisplays_def emptyTop_def numeral_2_eq_2 displayCard_def
          bugA_def bugB_def newPortal_def closest_unset_def target_unset_def)
  have output_out: "updateOutputCard (emptyTop 2)
        [Some (bugA\<lparr>travel := \<lparr>tx = Some (Finite 0), ty = Some (Finite 64),
                                 tz = Some (Finite 0), tworld = Some WORLD_NETHER\<rparr>,
                     target := \<lparr>gname = Some ''B'', gdistance = CannotReach\<rparr>\<rparr>),
          Some (bugB\<lparr>world := WORLD_OVERWORLD\<rparr>)] = Inr ()"
    by (simp add: updateOutputCard_def emptyTop_def convertCoords_def outputVisit_def Let_def
          bugA_def bugB_def newPortal_def WORLD_NETHER_def WORLD_OVERWORLD_def)
  have run_in: "updateAllPortalCalculations (emptyTop 2) [Some bugA, Some bugB]
     = ([Some (bugA\<lparr>travel := \<lparr>tx = Some (Finite 0), ty = Some (Finite 64), tz = Some (Finite 0),
                                tworld = Some WORLD_NETHER\<rparr>,
                    target := \<lparr>gname = Some ''B'', gdistance = DNull\<rparr>\<rparr>),
         Some bugB], Some TypeError)"
    using passes [of WORLD_NETHER] closest [of WORLD_NETHER]
    by (simp add: updateAllPortalCalculations_def same target_in display_in)
  have run_out: "updateAllPortalCalculations (emptyTop 2)
        [Some bugA, Some (bugB\<lparr>world := WORLD_OVERWORLD\<rparr>)]
     = ([Some (bugA\<lparr>travel := \<lparr>tx = Some (Finite 0), ty = Some (Finite 64), tz = Some (Finite 0),
                                tworld = Some WORLD_NETHER\<rparr>,
                    target := \<lparr>gname = Some ''B'', gdistance = CannotReach\<rparr>\<rparr>),
         Some (bugB\<lparr>world := WORLD_OVERWORLD\<rparr>)], None)"
    by (simp add: updateAllPortalCalculations_def passes closest target_out display_out
          output_out)
  from run_in run_out show ?thesis by simp
qed

text \<open>
  C2 does not hold of the code when the first portal with the destination's name has
  x and z and lacks only its y. \<open>bugA\<close> has the destination B; \<open>bugB\<close>, the only
  portal named B, has no y, and is in the Nether at the x and z of the travel location
  of \<open>bugA\<close>. The position of \<open>bugB\<close> is incomplete, yet after the three passes
  the target of \<open>bugA\<close> is the name of \<open>bugB\<close> with an unset distance, not fully
  unset; the card display, which formats the distance of every named target other than
  the sentinel as a number, then raises on it, so the sweep ends in its
  \<^verbatim>\<open>catch\<close> clause. With \<open>bugB\<close> in the Overworld instead, the target of
  \<open>bugA\<close> is the name of \<open>bugB\<close> with the sentinel. \<open>computePortalTravelLocation\<close>
  tests x, y and z, and \<open>computeClosestPortal\<close> skips a candidate for which
  \<open>distance3D\<close> returns unset; \<open>computeTargetPortal\<close> has neither check.
\<close>

theorem incomplete_target_not_unset:
  "destination bugA = ''B'' \<and> name bugB = ''B'' \<and> py bugB = None
   \<and> updateAllPortalCalculations (emptyTop 2) [Some bugA, Some bugB]
     = ([Some (bugA\<lparr>travel := \<lparr>tx = Some (Finite 0), ty = Some (Finite 64), tz = Some (Finite 0),
                                tworld = Some WORLD_NETHER\<rparr>,
                    target := \<lparr>gname = Some ''B'', gdistance = DNull\<rparr>\<rparr>),
         Some bugB], Some TypeError)
   \<and> updateAllPortalCalculations (emptyTop 2) [Some bugA, Some (bugB\<lparr>world := WORLD_OVERWORLD\<rparr>)]
     = ([Some (bugA\<lparr>travel := \<lparr>tx = Some (Finite 0), ty = Some (Finite 64), tz = Some (Finite 0),
                                tworld = Some WORLD_NETHER\<rparr>,
                    target := \<lparr>gname = Some ''B'', gdistance = CannotReach\<rparr>\<rparr>),
         Some (bugB\<lparr>world := WORLD_OVERWORLD\<rparr>)], None)"
proof -
  have fields: "destination bugA = ''B''" "name bugB = ''B''" "py bugB = None"
    by (simp_all add: bugA_def bugB_def newPortal_def)
  from fields sweep_incomplete_target show ?thesis by simp
qed

section \<open>The sweep\<close>

text \<open>
  A pass keeps the length of the list. The travel pass raises exactly at the first
  \<^verbatim>\<open>null\<close> element, having rewritten the travel location of the portals before it;
  when it does not raise, the list holds portal objects only, and on such a list
  neither the closest pass nor the target pass raises.
\<close>

lemma forEachFrom_length: "length (fst (forEachFrom f i ps)) = length ps"
proof (induction f i ps rule: forEachFrom.induct)
  case (1 f i ps)
  show ?case
  proof (cases "i < length ps")
    case False
    then show ?thesis by (subst forEachFrom.simps) simp
  next
    case True
    show ?thesis
    proof (cases "f ps (ps ! i) i")
      case (Inl e)
      with True show ?thesis by (subst forEachFrom.simps) simp
    next
      case (Inr p')
      with True "1.IH" [OF True Inr] show ?thesis
        by (subst forEachFrom.simps) simp
    qed
  qed
qed














section \<open>Operations on the list\<close>

lemma forEach_length: "length (fst (forEach f ps)) = length ps"
  by (simp add: forEach_def forEachFrom_length)

lemma updateAllPortalCalculations_length:
  "length (fst (updateAllPortalCalculations pg ps)) = length ps"
proof -
  let ?T = "\<lambda>(ps::entry list) portal (index::nat). computePortalTravelLocation portal"
  let ?C = "\<lambda>ps portal index. computeClosestPortal ps portal index"
  let ?G = "\<lambda>ps portal (index::nat). computeTargetPortal ps portal"
  obtain ps1 r1 where pass1: "forEach ?T ps = (ps1, r1)"
    by (cases "forEach ?T ps") auto
  obtain ps2 r2 where pass2: "forEach ?C ps1 = (ps2, r2)"
    by (cases "forEach ?C ps1") auto
  obtain ps3 r3 where pass3: "forEach ?G ps2 = (ps3, r3)"
    by (cases "forEach ?G ps2") auto
  have l1: "length ps1 = length ps"
    using forEach_length [of ?T ps] pass1 by simp
  have l2: "length ps2 = length ps1"
    using forEach_length [of ?C ps1] pass2 by simp
  have l3: "length ps3 = length ps2"
    using forEach_length [of ?G ps2] pass3 by simp
  show ?thesis
    using pass1 pass2 pass3 l1 l2 l3
    by (auto simp: updateAllPortalCalculations_def split: option.splits sum.splits)
qed

lemma renderPortalList_length: "renderPortalList pg ps = Inr ps' \<Longrightarrow> length ps' = length ps"
  by (auto simp: renderPortalList_def updateAllPortalCalculations_length split: sum.splits)

lemma sweep_blank:
  "fst (updateAllPortalCalculations pg [Some createBlankPortal]) = [Some createBlankPortal]"
  by (simp add: updateAllPortalCalculations_def forEach_def forEachFrom.simps
        computePortalTravelLocation_def computeClosestPortal_def computeTargetPortal_def
        createBlankPortal_def travel_unset_def closest_unset_def target_unset_def
        split: sum.splits)

lemma render_blank:
  "renderPortalList pg [Some createBlankPortal] = Inr [Some createBlankPortal]"
  by (simp add: renderPortalList_def createPortalCard_def sweep_blank)

text \<open>
  C6 is not met by the import: \<open>importPortalsFromFile\<close> checks only that the parsed
  file is an array, so a file that holds the empty array leaves the portal list empty,
  whatever it was before.
\<close>

theorem import_empty_array:
  "importPortalsFromFile pg (Some (Array [])) ps = []"
  by (simp add: importPortalsFromFile_def renderPortalList_def
        updateAllPortalCalculations_def forEach_def forEachFrom.simps split: sum.splits)

text \<open>
  Delete, reset and initialization do keep the list non-empty (\<open>initializePortals\<close>
  replaces an empty stored array by one blank portal, \<open>deletePortal\<close> refills an
  emptied list), and deleting the only portal leaves exactly one blank portal.
\<close>

lemma delete_reset_initialize_nonempty:
  "deletePortal pg index ps \<noteq> []"
  "resetPortals pg True ps = [Some createBlankPortal]"
  "ps \<noteq> [] \<Longrightarrow> resetPortals pg False ps \<noteq> []"
  "initializePortals tview cview gview parse storage \<noteq> []"
  "deletePortal pg 0 [e] = [Some createBlankPortal]"
proof -
  define spliced where "spliced = take index ps @ drop (Suc index) ps"
  define refilled where
    "refilled = (if length spliced = 0 then spliced @ [Some createBlankPortal] else spliced)"
  have nonempty: "refilled \<noteq> []"
    by (simp add: refilled_def)
  have del: "deletePortal pg index ps
      = (case renderPortalList pg refilled of Inl e \<Rightarrow> refilled | Inr rendered \<Rightarrow> rendered)"
    by (simp only: deletePortal_def Let_def refilled_def spliced_def)
  show "deletePortal pg index ps \<noteq> []"
  proof (cases "renderPortalList pg refilled")
    case (Inl e)
    with del nonempty show ?thesis by simp
  next
    case (Inr rendered)
    with renderPortalList_length have "length rendered = length refilled" by blast
    with del Inr nonempty show ?thesis by auto
  qed
  show "resetPortals pg True ps = [Some createBlankPortal]"
    by (simp add: resetPortals_def render_blank)
  show "ps \<noteq> [] \<Longrightarrow> resetPortals pg False ps \<noteq> []"
    by (simp add: resetPortals_def)
  show "initializePortals tview cview gview parse storage \<noteq> []"
    by (auto simp: initializePortals_def split: option.splits)
  show "deletePortal pg 0 [e] = [Some createBlankPortal]"
    by (simp add: deletePortal_def render_blank)
qed

section \<open>Sanitization\<close>

text \<open>Reading a property fails exactly on \<^verbatim>\<open>null\<close> and \<^verbatim>\<open>undefined\<close>.\<close>

lemma getProp_error: "getProp raw k = Inl e \<longleftrightarrow> raw = JNull \<or> raw = JUndefined"
  by (cases raw; cases e) (simp_all add: getProp_def)

lemma sanitizeFields_value:
  assumes "raw \<noteq> JNull" "raw \<noteq> JUndefined"
  shows "\<exists>p. sanitizeFields tview cview gview raw = Inr p
     \<and> (\<forall>v. getProp raw ''name'' = Inr v \<longrightarrow> name p = stringOrEmpty v)
     \<and> (\<forall>v. getProp raw ''destination'' = Inr v \<longrightarrow> destination p = stringOrEmpty v)
     \<and> (\<forall>v. getProp raw ''x'' = Inr v \<longrightarrow> px p = finiteOrNull v)
     \<and> (\<forall>v. getProp raw ''y'' = Inr v \<longrightarrow> py p = finiteOrNull v)
     \<and> (\<forall>v. getProp raw ''z'' = Inr v \<longrightarrow> pz p = finiteOrNull v)
     \<and> (\<forall>v. getProp raw ''world'' = Inr v \<longrightarrow>
            world p = (if v = JStr WORLD_NETHER then WORLD_NETHER else WORLD_OVERWORLD))"
proof -
  have "\<exists>v. getProp raw k = Inr v" for k
    using assms by (cases raw) (simp_all add: getProp_def)
  then obtain g where g: "\<And>k. getProp raw k = Inr (g k)"
    by metis
  show ?thesis
    by (simp add: sanitizeFields_def bindE_def g)
qed

text \<open>
  C9: the sanitized record of any raw value has one of the two world tags. When the raw
  value is \<^verbatim>\<open>null\<close> or \<^verbatim>\<open>undefined\<close>, so that reading its fields fails, the
  result is the blank portal. Otherwise name and destination are the raw field when it
  is a string and empty when it is not, each coordinate is the raw field when it is a
  finite number and unset when it is not, and the world is the Nether exactly when the
  raw field is the Nether tag, the Overworld for anything else. Every record that
  \<open>loadPortalsFromStorage\<close> returns is such a sanitized record.
\<close>

theorem sanitizePortal_well_formed:
  "world (sanitizePortal tview cview gview raw) \<in> {WORLD_OVERWORLD, WORLD_NETHER}
   \<and> (raw = JNull \<or> raw = JUndefined \<longrightarrow>
        sanitizePortal tview cview gview raw = createBlankPortal)
   \<and> (getProp raw ''name'' = Inr vn \<longrightarrow>
        name (sanitizePortal tview cview gview raw) = (case vn of JStr s \<Rightarrow> s | _ \<Rightarrow> ''''))
   \<and> (getProp raw ''destination'' = Inr vd \<longrightarrow>
        destination (sanitizePortal tview cview gview raw)
          = (case vd of JStr s \<Rightarrow> s | _ \<Rightarrow> ''''))
   \<and> (getProp raw ''x'' = Inr vx \<longrightarrow>
        px (sanitizePortal tview cview gview raw)
          = (case vx of JNum (Finite r) \<Rightarrow> Some (Finite r) | _ \<Rightarrow> None))
   \<and> (getProp raw ''y'' = Inr vy \<longrightarrow>
        py (sanitizePortal tview cview gview raw)
          = (case vy of JNum (Finite r) \<Rightarrow> Some (Finite r) | _ \<Rightarrow> None))
   \<and> (getProp raw ''z'' = Inr vz \<longrightarrow>
        pz (sanitizePortal tview cview gview raw)
          = (case vz of JNum (Finite r) \<Rightarrow> Some (Finite r) | _ \<Rightarrow> None))
   \<and> (getProp raw ''world'' = Inr vw \<longrightarrow>
        world (sanitizePortal tview cview gview raw)
          = (if vw = JStr WORLD_NETHER then WORLD_NETHER else WORLD_OVERWORLD))
   \<and> (loadPortalsFromStorage tview cview gview parse storage = Some loaded \<longrightarrow>
        (\<forall>e\<in>set loaded. \<exists>v. e = Some (sanitizePortal tview cview gview v)))"
proof (cases "raw = JNull \<or> raw = JUndefined")
  case True
  then have "sanitizeFields tview cview gview raw = Inl TypeError"
    by (auto simp: sanitizeFields_def bindE_def getProp_def)
  then have blank: "sanitizePortal tview cview gview raw = createBlankPortal"
    by (simp add: sanitizePortal_def)
  have "getProp raw k \<noteq> Inr v" for k v
    using True by (auto simp: getProp_def)
  moreover have "loadPortalsFromStorage tview cview gview parse storage = Some loaded \<longrightarrow>
        (\<forall>e\<in>set loaded. \<exists>v. e = Some (sanitizePortal tview cview gview v))"
    by (auto simp: loadPortalsFromStorage_def split: option.splits if_splits jsval.splits)
  ultimately show ?thesis
    using blank by (simp add: createBlankPortal_def)
next
  case False
  then obtain p where p: "sanitizeFields tview cview gview raw = Inr p"
    and fields: "\<forall>v. getProp raw ''name'' = Inr v \<longrightarrow> name p = stringOrEmpty v"
      "\<forall>v. getProp raw ''destination'' = Inr v \<longrightarrow> destination p = stringOrEmpty v"
      "\<forall>v. getProp raw ''x'' = Inr v \<longrightarrow> px p = finiteOrNull v"
      "\<forall>v. getProp raw ''y'' = Inr v \<longrightarrow> py p = finiteOrNull v"
      "\<forall>v. getProp raw ''z'' = Inr v \<longrightarrow> pz p = finiteOrNull v"
      "\<forall>v. getProp raw ''world'' = Inr v \<longrightarrow>
            world p = (if v = JStr WORLD_NETHER then WORLD_NETHER else WORLD_OVERWORLD)"
    using sanitizeFields_value [of raw tview cview gview] by blast
  have same: "sanitizePortal tview cview gview raw = p"
    by (simp add: sanitizePortal_def p)
  obtain w where w: "getProp raw ''world'' = Inr w"
    using False by (cases raw) (simp_all add: getProp_def)
  have world2: "world p \<in> {WORLD_OVERWORLD, WORLD_NETHER}"
    using fields(6) w by auto
  have load: "loadPortalsFromStorage tview cview gview parse storage = Some loaded \<longrightarrow>
        (\<forall>e\<in>set loaded. \<exists>v. e = Some (sanitizePortal tview cview gview v))"
    by (auto simp: loadPortalsFromStorage_def split: option.splits if_splits jsval.splits)
  have str: "stringOrEmpty v = (case v of JStr s \<Rightarrow> s | _ \<Rightarrow> '''')" for v
    by (simp add: stringOrEmpty_def)
  have fin: "finiteOrNull v = (case v of JNum (Finite r) \<Rightarrow> Some (Finite r) | _ \<Rightarrow> None)" for v
    by (simp add: finiteOrNull_def)
  show ?thesis
    unfolding same using False world2 load fields by (simp add: str fin)
qed

theorem sanitizePortal_well_formed_witness:
  "sanitizePortal (\<lambda>v. travel_unset) (\<lambda>v. closest_unset) (\<lambda>v. target_unset) JNull
     = createBlankPortal
   \<and> name (sanitizePortal (\<lambda>v. travel_unset) (\<lambda>v. closest_unset) (\<lambda>v. target_unset) exRaw) = ''''
   \<and> destination (sanitizePortal (\<lambda>v. travel_unset) (\<lambda>v. closest_unset) (\<lambda>v. target_unset) exRaw)
       = ''Home''
   \<and> px (sanitizePortal (\<lambda>v. travel_unset) (\<lambda>v. closest_unset) (\<lambda>v. target_unset) exRaw) = None
   \<and> py (sanitizePortal (\<lambda>v. travel_unset) (\<lambda>v. closest_unset) (\<lambda>v. target_unset) exRaw)
       = Some (Finite 64)
   \<and> pz (sanitizePortal (\<lambda>v. travel_unset) (\<lambda>v. closest_unset) (\<lambda>v. target_unset) exRaw) = None
   \<and> world (sanitizePortal (\<lambda>v. travel_unset) (\<lambda>v. closest_unset) (\<lambda>v. target_unset) exRaw)
       = WORLD_OVERWORLD
   \<and> loadPortalsFromStorage (\<lambda>v. travel_unset) (\<lambda>v. closest_unset) (\<lambda>v. target_unset)
        exParse exStorage = Some [Some createBlankPortal]"
proof -
  let ?tv = "\<lambda>v::jsval. travel_unset"
  let ?cv = "\<lambda>v::jsval. closest_unset"
  let ?gv = "\<lambda>v::jsval. target_unset"
  have props: "getProp exRaw ''name'' = Inr (JNum (Finite 5))"
    "getProp exRaw ''destination'' = Inr (JStr ''Home'')"
    "getProp exRaw ''x'' = Inr (JNum PosInf)"
    "getProp exRaw ''y'' = Inr (JNum (Finite 64))"
    "getProp exRaw ''z'' = Inr (JStr ''7'')"
    "getProp exRaw ''world'' = Inr (JStr ''End'')"
    by (simp_all add: getProp_def exRaw_def)
  have load: "loadPortalsFromStorage ?tv ?cv ?gv exParse exStorage
      = Some [Some (sanitizePortal ?tv ?cv ?gv JNull)]"
    by (simp add: loadPortalsFromStorage_def exParse_def exStorage_def)
  have blank: "sanitizePortal ?tv ?cv ?gv JNull = createBlankPortal"
    using sanitizePortal_well_formed [of ?tv ?cv ?gv JNull] by simp
  have "\<forall>e\<in>set [Some (sanitizePortal ?tv ?cv ?gv JNull)].
          \<exists>v. e = Some (sanitizePortal ?tv ?cv ?gv v)"
    using sanitizePortal_well_formed [of ?tv ?cv ?gv JNull _ _ _ _ _ _ exParse exStorage
      "[Some (sanitizePortal ?tv ?cv ?gv JNull)]"] load by blast
  from sanitizePortal_well_formed [of ?tv ?cv ?gv exRaw "JNum (Finite 5)" "JStr ''Home''"
      "JNum PosInf" "JNum (Finite 64)" "JStr ''7''" "JStr ''End''"] props blank load
  show ?thesis
    by (simp add: WORLD_NETHER_def)
qed

end
